theory Spec2Isabelle
  imports Complex_Main "HOL-Library.AList"
begin

section \<open>JavaScript values, objects and errors\<close>

text \<open>
  Numbers are modelled as reals (the rounding of IEEE doubles and NaN are outside the
  model). A plain object and a \<open>Map\<close> are association lists in insertion order:
  \<open>AList.update\<close> overwrites an existing key in place and appends a new one, as
  property assignment and \<open>Map.set\<close> do. A thrown exception is a value of type
  \<open>error\<close> carrying the exception's \<open>name\<close> and message.
\<close>

datatype jsval = JUndefined | JNull | JBool bool | JNum real | JStr string

type_synonym jsobject = "(string \<times> jsval) list"

definition getProp :: "jsobject \<Rightarrow> string \<Rightarrow> jsval" where
  "getProp obj k = (case map_of obj k of None \<Rightarrow> JUndefined | Some v \<Rightarrow> v)"

datatype error = JsError (error_name: string) (error_message: string)

definition TypeError :: "string \<Rightarrow> error" where
  "TypeError m = JsError ''TypeError'' m"

subsection \<open>Rounding to a double\<close>

text \<open>
  Where the outcome of a comparison depends on it, the arithmetic of the code is
  modelled as it is carried out, in IEEE 754 doubles: each operation gives the exact
  result rounded to the nearest double, ties to the even mantissa. \<open>binade\<close> finds
  the exponent \<open>e\<close> with \<open>2 ^ e \<le> x < 2 ^ (e + 1)\<close> by a search from the start
  exponent \<open>e\<close>, kept within the exponents of a double (from \<open>- 1022\<close>, where the
  subnormal numbers begin, to 1023); \<open>fl x\<close> is the multiple of the spacing of the
  doubles around \<open>x\<close> that is nearest to \<open>x\<close>. A number written in the model that is
  not a double stands for the double nearest to it, as a literal of the code does. Beyond
  the largest double the code has \<open>Infinity\<close>, which is outside the model.
\<close>

definition roundEven :: "real \<Rightarrow> int" where
  "roundEven q =
     (let f = \<lfloor>q\<rfloor>; d = q - of_int f
      in if d < 1 / 2 then f else if 1 / 2 < d then f + 1 else if even f then f else f + 1)"

fun binade :: "nat \<Rightarrow> int \<Rightarrow> real \<Rightarrow> int" where
  "binade 0 e x = e"
| "binade (Suc k) e x =
     (if x < 2 powi e then (if e \<le> - 1022 then - 1022 else binade k (e - 1) x)
      else if 2 powi (e + 1) \<le> x then (if 1023 \<le> e then 1023 else binade k (e + 1) x)
      else e)"

definition fl :: "real \<Rightarrow> real" where
  "fl x =
     (if x = 0 then 0
      else (let u = 2 powi (binade 2100 0 \<bar>x\<bar> - 52) in of_int (roundEven (x / u)) * u))"

section \<open>CausalGraphSubstrate (causal-graph-substrate.js)\<close>

subsection \<open>Data\<close>

record message =
  msg_id :: string
  msg_from :: "string option"
  msg_to :: string
  msg_signal :: real
  msg_metadata :: jsobject
  msg_timestamp :: nat
  msg_path :: "string list"

text \<open>
  The fields of a node other than its handlers; a handler receives the node, and this is
  the part of it the model lets a handler read.
\<close>

record node_core =
  node_id :: string
  node_type :: string
  node_data :: jsobject
  activation :: real
  lastFired :: "nat option"
  node_metadata :: jsobject

text \<open>
  A handler is a callback of the caller. It is modelled as a function of its three
  arguments \<open>(signal, metadata, node)\<close> that either returns a value or throws, and in
  both cases may have rewritten \<open>node.data\<close> (as the handlers of
  \<open>setupBillingCausality\<close> do). A handler that re-enters the substrate, assigns
  \<open>node.activation\<close> or awaits a timer is outside the model.
\<close>

datatype handler_outcome = Returns jsobject jsval | Throws jsobject

type_synonym handler = "real \<Rightarrow> jsobject \<Rightarrow> node_core \<Rightarrow> handler_outcome"

record node = node_core +
  handlers :: "(string \<times> handler) list"

datatype conditions = CondFn "message \<Rightarrow> bool" | CondObj jsobject

record edge =
  edge_id :: string
  edge_from :: string
  edge_to :: string
  strength :: real
  delay :: nat
  edge_conditions :: "conditions option"
  transform :: "(real \<Rightarrow> jsobject \<Rightarrow> real) option"
  bidirectional :: bool
  edge_metadata :: jsobject

record observed =
  obs_count :: nat
  obs_strength :: "real list"

text \<open>
  The \<open>reason\<close> of a proposal is a text built from the count and the average with
  \<open>toFixed(2)\<close>; the model keeps the two numbers.
\<close>

record proposed_edge =
  prop_from :: string
  prop_to :: string
  prop_strength :: real
  confidence :: real
  reason :: "nat \<times> real"

record activation_result =
  res_nodeId :: string
  res_activation :: real
  handlerResults :: jsobject
  res_timestamp :: nat

record propagation_result =
  propagationId :: string
  activatedNodes :: "string list"
  finalStates :: "activation_result option list"

text \<open>
  The state of one \<open>CausalGraphSubstrate\<close> object. \<open>pendingTimers\<close> is not a field
  of the class: it is the host's list of callbacks passed to \<open>setTimeout\<close> that have
  not run yet, each with its delay and the message its callback will push. The host runs
  a timer callback only as a task of its own, never inside a running \<open>propagate\<close>
  (whose \<open>await\<close>s resume as microtasks).
\<close>

record substrate =
  nodes :: "(string \<times> node) list"
  edges :: "(string \<times> edge) list"
  messageQueue :: "message list"
  observedPatterns :: "(string \<times> observed) list"
  proposedEdges :: "proposed_edge list"
  nodeGroups :: "(string \<times> string list) list"
  pendingTimers :: "(nat \<times> message) list"

definition newSubstrate :: substrate where
  "newSubstrate = \<lparr>nodes = [], edges = [], messageQueue = [], observedPatterns = [],
     proposedEdges = [], nodeGroups = [], pendingTimers = []\<rparr>"

subsection \<open>registerNode\<close>

record node_config =
  cfg_type :: "string option"
  cfg_data :: "jsobject option"
  cfg_handlers :: "(string \<times> handler) list option"
  cfg_groups :: "string list option"
  cfg_metadata :: "jsobject option"

definition orElse :: "'a option \<Rightarrow> 'a \<Rightarrow> 'a" where
  "orElse v d = (case v of None \<Rightarrow> d | Some x \<Rightarrow> x)"

definition addToGroup :: "string \<Rightarrow> string \<Rightarrow> substrate \<Rightarrow> substrate" where
  "addToGroup ident grp s =
     s\<lparr>nodeGroups := AList.update grp
          (case map_of (nodeGroups s) grp of
             None \<Rightarrow> [ident]
           | Some members \<Rightarrow> if ident \<in> set members then members else members @ [ident])
          (nodeGroups s)\<rparr>"

definition registerNode :: "string \<Rightarrow> node_config \<Rightarrow> substrate \<Rightarrow> substrate" where
  "registerNode ident config s =
     (let s1 = s\<lparr>nodes := AList.update ident
                 \<lparr>node_id = ident,
                  node_type = (case cfg_type config of
                                 None \<Rightarrow> ''generic''
                               | Some t \<Rightarrow> if t = [] then ''generic'' else t),
                  node_data = orElse (cfg_data config) [],
                  activation = 0,
                  lastFired = None,
                  node_metadata = orElse (cfg_metadata config) [],
                  handlers = orElse (cfg_handlers config) []\<rparr>
                 (nodes s)\<rparr>
      in case cfg_groups config of
           None \<Rightarrow> s1
         | Some groups \<Rightarrow> fold (addToGroup ident) groups s1)"

subsection \<open>registerCausalEdge\<close>

record edge_config =
  ecfg_from :: string
  ecfg_to :: string
  ecfg_strength :: "real option"
  ecfg_delay :: "nat option"
  ecfg_conditions :: "conditions option"
  ecfg_transform :: "(real \<Rightarrow> jsobject \<Rightarrow> real) option"
  ecfg_bidirectional :: "bool option"
  ecfg_metadata :: "jsobject option"

text \<open>\<open>config.strength || 1.0\<close>: a missing strength and the falsy strength 0 both give 1.\<close>

definition registerCausalEdge :: "string \<Rightarrow> edge_config \<Rightarrow> substrate \<Rightarrow> substrate" where
  "registerCausalEdge ident config s =
     s\<lparr>edges := AList.update ident
          \<lparr>edge_id = ident,
           edge_from = ecfg_from config,
           edge_to = ecfg_to config,
           strength = (case ecfg_strength config of
                         None \<Rightarrow> 1
                       | Some w \<Rightarrow> if w = 0 then 1 else w),
           delay = orElse (ecfg_delay config) 0,
           edge_conditions = ecfg_conditions config,
           transform = ecfg_transform config,
           bidirectional = orElse (ecfg_bidirectional config) False,
           edge_metadata = orElse (ecfg_metadata config) []\<rparr>
          (edges s)\<rparr>"

subsection \<open>The execution engine\<close>

fun runHandlers ::
  "(string \<times> handler) list \<Rightarrow> real \<Rightarrow> jsobject \<Rightarrow> node \<Rightarrow> jsobject \<Rightarrow> node \<times> jsobject" where
  "runHandlers [] signal metadata n results = (n, results)"
| "runHandlers ((handlerName, h) # hs) signal metadata n results =
     (case h signal metadata (node_core.truncate n) of
        Returns d v \<Rightarrow>
          runHandlers hs signal metadata (n\<lparr>node_data := d\<rparr>) (AList.update handlerName v results)
      | Throws d \<Rightarrow> runHandlers hs signal metadata (n\<lparr>node_data := d\<rparr>) results)"

definition activateNode ::
  "string \<Rightarrow> real \<Rightarrow> jsobject \<Rightarrow> nat \<Rightarrow> substrate \<Rightarrow> activation_result option \<times> substrate" where
  "activateNode nodeId signal metadata now s =
     (case map_of (nodes s) nodeId of
        None \<Rightarrow> (None, s)
      | Some n \<Rightarrow>
          (case runHandlers (handlers n) signal metadata
                  (n\<lparr>activation := min 1 (activation n + signal), lastFired := Some now\<rparr>) [] of
             (n', results) \<Rightarrow>
               (Some \<lparr>res_nodeId = nodeId, res_activation = activation n',
                      handlerResults = results, res_timestamp = now\<rparr>,
                s\<lparr>nodes := AList.update nodeId n' (nodes s)\<rparr>)))"

definition outgoingOf :: "string \<Rightarrow> edge \<Rightarrow> edge list" where
  "outgoingOf nodeId e =
     (if edge_from e = nodeId then [e] else []) @
     (if bidirectional e \<and> edge_to e = nodeId
      then [e\<lparr>edge_from := edge_to e, edge_to := edge_from e\<rparr>] else [])"

definition findOutgoingEdges :: "string \<Rightarrow> substrate \<Rightarrow> edge list" where
  "findOutgoingEdges nodeId s = concat (map (outgoingOf nodeId \<circ> snd) (edges s))"

fun evaluateConditions :: "conditions \<Rightarrow> message \<Rightarrow> bool" where
  "evaluateConditions (CondFn f) m = f m"
| "evaluateConditions (CondObj kvs) m =
     list_all (\<lambda>(key, v). getProp (msg_metadata m) key = v) kvs"

text \<open>
  One turn of the loop over the outgoing edges. The message for the target is not pushed
  here: the code hands the push to \<open>setTimeout\<close>, so it joins \<open>pendingTimers\<close>.
  Its timestamp is read when the callback runs.
\<close>

definition scheduleEdge :: "string \<Rightarrow> message \<Rightarrow> edge \<Rightarrow> substrate \<Rightarrow> substrate" where
  "scheduleEdge pid m e s =
     (if (case edge_conditions e of None \<Rightarrow> False | Some c \<Rightarrow> \<not> evaluateConditions c m)
      then s
      else
        (let newSignal = msg_signal m * strength e;
             newSignal' = (case transform e of
                             None \<Rightarrow> newSignal
                           | Some t \<Rightarrow> t newSignal (msg_metadata m))
         in s\<lparr>pendingTimers := pendingTimers s @
               [(delay e,
                 \<lparr>msg_id = pid, msg_from = Some (msg_to m), msg_to = edge_to e,
                  msg_signal = newSignal',
                  msg_metadata = AList.update ''edge'' (JStr (edge_id e)) (msg_metadata m),
                  msg_timestamp = 0,
                  msg_path = msg_path m @ [edge_to e]\<rparr>)]\<rparr>))"

text \<open>The host runs the callback of the \<open>i\<close>-th pending timer: the message is pushed.\<close>

definition timerFires :: "nat \<Rightarrow> nat \<Rightarrow> substrate \<Rightarrow> substrate" where
  "timerFires i now s =
     (if i < length (pendingTimers s)
      then s\<lparr>messageQueue := messageQueue s @ [(snd (pendingTimers s ! i))\<lparr>msg_timestamp := now\<rparr>],
             pendingTimers := take i (pendingTimers s) @ drop (Suc i) (pendingTimers s)\<rparr>
      else s)"

text \<open>
  The body of one turn of the \<open>while\<close> loop for a message whose target has not been
  visited in this run: activate the node, find its outgoing edges, schedule a message
  along each.
\<close>

definition visitMessage ::
  "string \<Rightarrow> nat \<Rightarrow> message \<Rightarrow> substrate \<Rightarrow> activation_result option \<times> substrate" where
  "visitMessage pid now m s =
     (case activateNode (msg_to m) (msg_signal m) (msg_metadata m) now s of
        (result, s') \<Rightarrow>
          (result, fold (scheduleEdge pid m) (findOutgoingEdges (msg_to m) s') s'))"

lemma messageQueue_activateNode [simp]:
  "messageQueue (snd (activateNode nodeId signal metadata now s)) = messageQueue s"
  by (simp add: activateNode_def split: option.split prod.split)

lemma messageQueue_scheduleEdge [simp]: "messageQueue (scheduleEdge pid m e s) = messageQueue s"
  by (simp add: scheduleEdge_def Let_def)

lemma messageQueue_fold_scheduleEdge [simp]:
  "messageQueue (fold (scheduleEdge pid m) es s) = messageQueue s"
  by (induction es arbitrary: s) simp_all

lemma messageQueue_visitMessage [simp]:
  "messageQueue (snd (visitMessage pid now m s)) = messageQueue s"
proof -
  obtain result s' where a: "activateNode (msg_to m) (msg_signal m) (msg_metadata m) now s = (result, s')"
    by (cases "activateNode (msg_to m) (msg_signal m) (msg_metadata m) now s")
  have "messageQueue s' = messageQueue s"
    using messageQueue_activateNode [of "msg_to m" "msg_signal m" "msg_metadata m" now s] a by simp
  then show ?thesis by (simp add: visitMessage_def a)
qed

lemma visitMessage_messageQueue:
  "(result, s') = visitMessage pid now m s \<Longrightarrow> messageQueue s' = messageQueue s"
  by (metis messageQueue_visitMessage snd_conv)

text \<open>
  The \<open>while (this.messageQueue.length > 0)\<close> loop of \<open>propagate\<close>, with the set
  \<open>visited\<close> and the array \<open>results\<close> as accumulators. Nothing in the loop pushes
  to the queue (the pushes wait in \<open>pendingTimers\<close>), so every turn shortens it: the
  termination proof below is the proof that the loop ends on every graph.
\<close>

function runQueue ::
  "string \<Rightarrow> nat \<Rightarrow> string set \<Rightarrow> activation_result option list \<Rightarrow> substrate
     \<Rightarrow> activation_result option list \<times> substrate" where
  "runQueue pid now visited results s =
     (case messageQueue s of
        [] \<Rightarrow> (results, s)
      | m # rest \<Rightarrow>
          (if msg_to m @ ''_'' @ pid \<in> visited
           then runQueue pid now visited results (s\<lparr>messageQueue := rest\<rparr>)
           else
             (case visitMessage pid now m (s\<lparr>messageQueue := rest\<rparr>) of
                (result, s') \<Rightarrow>
                  runQueue pid now (insert (msg_to m @ ''_'' @ pid) visited)
                    (results @ [result]) s')))"
  by pat_completeness auto

termination
  by (relation "measure (\<lambda>(pid, now, visited, results, s). length (messageQueue s))")
     (auto dest!: visitMessage_messageQueue)

subsection \<open>Pattern learning\<close>

text \<open>The arrow of the pattern key (U+2192), as its three UTF-8 bytes.\<close>

definition arrow :: string where
  "arrow = [CHR 0xE2, CHR 0x86, CHR 0x92]"

definition edgeExists :: "string \<Rightarrow> string \<Rightarrow> substrate \<Rightarrow> bool" where
  "edgeExists src tgt s = list_ex (\<lambda>e. edge_from e = src \<and> edge_to e = tgt) (map snd (edges s))"

text \<open>
  \<open>observed.strength.reduce((a,b) => a+b, 0) / observed.strength.length\<close>, in
  doubles: the sum is rounded after each addition, and so is the quotient.
\<close>

definition avgStrengthOf :: "real list \<Rightarrow> real" where
  "avgStrengthOf strengths =
     fl (foldl (\<lambda>a b. fl (a + fl b)) 0 strengths / real (length strengths))"

text \<open>
  The body of the loop of \<open>_learnPattern\<close> for a result that is not null. The entry
  of the pattern is created with count 0 when missing, then counted and extended in
  place, which is one \<open>AList.update\<close> of the association list. The average, the
  threshold \<open>0.3\<close> it is compared with and the confidence \<open>observed.count / 10\<close>
  are doubles.
\<close>

definition learnOne :: "string \<Rightarrow> activation_result \<Rightarrow> substrate \<Rightarrow> substrate" where
  "learnOne sourceNode r s =
     (let pattern = sourceNode @ arrow @ res_nodeId r;
          old = orElse (map_of (observedPatterns s) pattern) \<lparr>obs_count = 0, obs_strength = []\<rparr>;
          obs = \<lparr>obs_count = obs_count old + 1,
                 obs_strength = obs_strength old @ [res_activation r]\<rparr>;
          s1 = s\<lparr>observedPatterns := AList.update pattern obs (observedPatterns s)\<rparr>
      in if obs_count obs > 5
         then
           (let avgStrength = avgStrengthOf (obs_strength obs)
            in if \<not> edgeExists sourceNode (res_nodeId r) s1 \<and> avgStrength > fl 0.3
               then s1\<lparr>proposedEdges := proposedEdges s1 @
                      [\<lparr>prop_from = sourceNode, prop_to = res_nodeId r,
                        prop_strength = avgStrength,
                        confidence = fl (real (obs_count obs) / 10),
                        reason = (obs_count obs, avgStrength)\<rparr>]\<rparr>
               else s1)
         else s1)"

definition learnStep :: "string \<Rightarrow> activation_result option \<Rightarrow> substrate \<Rightarrow> substrate" where
  "learnStep sourceNode result s =
     (case result of None \<Rightarrow> s | Some r \<Rightarrow> learnOne sourceNode r s)"

definition learnPattern :: "string \<Rightarrow> activation_result option list \<Rightarrow> substrate \<Rightarrow> substrate" where
  "learnPattern sourceNode results s = fold (learnStep sourceNode) results s"

definition getProposedEvolutions :: "substrate \<Rightarrow> proposed_edge list" where
  "getProposedEvolutions s = filter (\<lambda>e. confidence e > 0.5) (proposedEdges s)"

subsection \<open>propagate and broadcast\<close>

text \<open>
  \<open>results.map(r => r.nodeId)\<close>: reading \<open>nodeId\<close> of a null result throws a
  \<open>TypeError\<close>.
\<close>

fun nodeIds :: "activation_result option list \<Rightarrow> error + string list" where
  "nodeIds [] = Inr []"
| "nodeIds (None # rs) = Inl (TypeError ''Cannot read properties of null (reading nodeId)'')"
| "nodeIds (Some r # rs) =
     (case nodeIds rs of Inl e \<Rightarrow> Inl e | Inr ids \<Rightarrow> Inr (res_nodeId r # ids))"

text \<open>
  \<open>propagate\<close>. The random \<open>propagationId\<close> and the clock are arguments (the
  clock is read several times in a call, only to be stored). The call is an \<open>async\<close>
  function: \<open>Inl\<close> is a rejected promise; the state it leaves is returned in both
  cases. A call is taken to run to its end before anything else touches the substrate
  (the caller awaits it): its \<open>await\<close>s resume as microtasks, ahead of every timer.
\<close>

definition propagate ::
  "string \<Rightarrow> real \<Rightarrow> jsobject \<Rightarrow> string \<Rightarrow> nat \<Rightarrow> substrate
     \<Rightarrow> (error + propagation_result) \<times> substrate" where
  "propagate sourceNodeId signal metadata pid now s =
     (case runQueue pid now {} []
             (s\<lparr>messageQueue := messageQueue s @
                  [\<lparr>msg_id = pid, msg_from = None, msg_to = sourceNodeId, msg_signal = signal,
                    msg_metadata = metadata, msg_timestamp = now,
                    msg_path = [sourceNodeId]\<rparr>]\<rparr>) of
        (results, s1) \<Rightarrow>
          (let s2 = learnPattern sourceNodeId results s1
           in case nodeIds results of
                Inl e \<Rightarrow> (Inl e, s2)
              | Inr ids \<Rightarrow>
                  (Inr \<lparr>propagationId = pid, activatedNodes = ids, finalStates = results\<rparr>, s2)))"

text \<open>
  The loop of \<open>broadcast\<close> over the members of the group; the \<open>k\<close>-th call of
  \<open>propagate\<close> draws the identifier \<open>pids k\<close>. A rejected \<open>propagate\<close> rejects the
  broadcast.
\<close>

fun broadcastMembers ::
  "string list \<Rightarrow> real \<Rightarrow> jsobject \<Rightarrow> (nat \<Rightarrow> string) \<Rightarrow> nat \<Rightarrow> nat
     \<Rightarrow> propagation_result list \<Rightarrow> substrate
     \<Rightarrow> (error + propagation_result list) \<times> substrate" where
  "broadcastMembers [] signal metadata pids k now results s = (Inr results, s)"
| "broadcastMembers (nodeId # rest) signal metadata pids k now results s =
     (case propagate nodeId signal metadata (pids k) now s of
        (Inl e, s') \<Rightarrow> (Inl e, s')
      | (Inr r, s') \<Rightarrow>
          broadcastMembers rest signal metadata pids (Suc k) now (results @ [r]) s')"

definition broadcast ::
  "string \<Rightarrow> real \<Rightarrow> jsobject \<Rightarrow> (nat \<Rightarrow> string) \<Rightarrow> nat \<Rightarrow> substrate
     \<Rightarrow> (error + propagation_result list) \<times> substrate" where
  "broadcast groupName signal metadata pids now s =
     (case map_of (nodeGroups s) groupName of
        None \<Rightarrow> (Inr [], s)
      | Some members \<Rightarrow>
          broadcastMembers members signal
            (AList.update ''broadcast'' (JStr groupName) metadata) pids 0 now [] s)"

subsection \<open>Sequences of calls\<close>

text \<open>
  What can happen to a substrate between two observations: a call of its interface, or
  the host running one pending timer callback.
\<close>

datatype call =
    RegisterNode string node_config
  | RegisterCausalEdge string edge_config
  | Propagate string real jsobject string nat
  | Broadcast string real jsobject "nat \<Rightarrow> string" nat
  | TimerFires nat nat

fun perform :: "call \<Rightarrow> substrate \<Rightarrow> substrate" where
  "perform (RegisterNode ident config) s = registerNode ident config s"
| "perform (RegisterCausalEdge ident config) s = registerCausalEdge ident config s"
| "perform (Propagate src signal metadata pid now) s = snd (propagate src signal metadata pid now s)"
| "perform (Broadcast grp signal metadata pids now) s = snd (broadcast grp signal metadata pids now s)"
| "perform (TimerFires i now) s = timerFires i now s"

definition performAll :: "call list \<Rightarrow> substrate \<Rightarrow> substrate" where
  "performAll cs s = fold perform cs s"

definition activationOf :: "substrate \<Rightarrow> string \<Rightarrow> real option" where
  "activationOf s ident = map_option activation (map_of (nodes s) ident)"

section \<open>WaveResonanceCausalGraph (wave-resonance-causal-graph.js)\<close>

subsection \<open>Data\<close>

text \<open>
  The handler of a wave node is called with the new amplitude and an object holding the
  source's frequency and the edge's resonance. It is modelled as a function of these
  three numbers that returns normally (\<open>None\<close>) or throws; nothing catches what it
  throws.
\<close>

type_synonym wave_handler = "real \<Rightarrow> real \<Rightarrow> real \<Rightarrow> error option"

record wave_node =
  wn_id :: string
  gate :: real
  line :: "real option"
  color :: "real option"
  tone :: "real option"
  field :: string
  frequency :: real
  phase :: real
  amplitude :: real
  waveform :: string
  wn_handler :: "wave_handler option"
  wn_groups :: "string list"
  wn_metadata :: jsobject

record wave_edge =
  we_id :: string
  we_from :: string
  we_to :: string
  we_strength :: real
  phaseShift :: real
  harmonicResonance :: real
  we_bidirectional :: bool

text \<open>The \<open>reason\<close> text of a proposed resonance (numbers printed with \<open>toFixed\<close>) is left out.\<close>

record proposed_resonance =
  pr_from :: string
  pr_to :: string
  resonance :: real
  freqRatio :: real

record wave_graph =
  baseFrequency :: real
  sampleRate :: real
  time :: real
  wave_nodes :: "(string \<times> wave_node) list"
  wave_edges :: "(string \<times> wave_edge) list"
  fieldState :: "(string \<times> real) list"
  proposedResonances :: "proposed_resonance list"

definition newWaveGraph :: wave_graph where
  "newWaveGraph = \<lparr>baseFrequency = 220, sampleRate = 1000, time = 0, wave_nodes = [],
     wave_edges = [], fieldState = [], proposedResonances = []\<rparr>"

subsection \<open>Registration\<close>

record wave_node_config =
  wcfg_gate :: real
  wcfg_line :: "real option"
  wcfg_color :: "real option"
  wcfg_tone :: "real option"
  wcfg_field :: string
  wcfg_waveform :: "string option"
  wcfg_handler :: "wave_handler option"
  wcfg_groups :: "string list option"
  wcfg_metadata :: "jsobject option"

definition calculateFrequency :: "wave_graph \<Rightarrow> real \<Rightarrow> real option \<Rightarrow> real option \<Rightarrow> real option \<Rightarrow> real" where
  "calculateFrequency g gateNum lineNum colorNum toneNum =
     (let gateMultiplier = 1 + gateNum / 64;
          lineMultiplier = 1 + orElse lineNum 3 / 12;
          colorMultiplier = 1 + orElse colorNum 3 / 60;
          toneMultiplier = 1 + orElse toneNum 3 / 120;
          freq = baseFrequency g * gateMultiplier * lineMultiplier * colorMultiplier * toneMultiplier
      in max 200 (min 2000 freq))"

text \<open>
  \<open>harmonics[field] || 1.0\<close>, for a field name that is not the name of a property every
  object inherits.
\<close>

definition getFieldHarmonic :: "string \<Rightarrow> real" where
  "getFieldHarmonic fld =
     orElse (map_of [(''Mind'', 1.5), (''Heart'', 1.0), (''Body'', 0.75), (''Shadow'', 0.5),
                     (''Light'', 2.0), (''Neutral'', 1.25), (''Sun'', 1.618), (''Moon'', 1.414),
                     (''Mercury'', 1.732)] fld) 1.0"

text \<open>\<open>config.waveform || 'sine'\<close>; \<open>rnd\<close> is the value \<open>Math.random()\<close> returns.\<close>

definition waveRegisterNode :: "string \<Rightarrow> wave_node_config \<Rightarrow> real \<Rightarrow> wave_graph \<Rightarrow> wave_graph" where
  "waveRegisterNode ident config rnd g =
     (let freq = calculateFrequency g (wcfg_gate config) (wcfg_line config) (wcfg_color config)
                   (wcfg_tone config);
          fieldHarmonic = getFieldHarmonic (wcfg_field config)
      in g\<lparr>wave_nodes := AList.update ident
              \<lparr>wn_id = ident, gate = wcfg_gate config, line = wcfg_line config,
               color = wcfg_color config, tone = wcfg_tone config, field = wcfg_field config,
               frequency = freq * fieldHarmonic,
               phase = rnd * pi * 2,
               amplitude = 0,
               waveform = (case wcfg_waveform config of
                             None \<Rightarrow> ''sine''
                           | Some w \<Rightarrow> if w = [] then ''sine'' else w),
               wn_handler = wcfg_handler config,
               wn_groups = orElse (wcfg_groups config) [],
               wn_metadata = orElse (wcfg_metadata config) []\<rparr>
              (wave_nodes g),
            fieldState := AList.update ident 0 (fieldState g)\<rparr>)"

text \<open>The table of simple ratios of \<open>_calculateHarmonicResonance\<close>: ratio and strength.\<close>

definition ratios :: "(real \<times> real) list" where
  "ratios = [(1, 1.0), (2, 0.9), (1.5, 0.8), (1.333, 0.7), (1.25, 0.6), (1.618, 0.75)]"

definition calculateHarmonicResonance :: "real \<Rightarrow> real" where
  "calculateHarmonicResonance fr =
     fold (\<lambda>(ratio, st) bestResonance.
             if \<bar>fr - ratio\<bar> < 0.05 then max bestResonance (st * (1 - \<bar>fr - ratio\<bar>))
             else bestResonance)
          ratios 0"

record wave_edge_config =
  wecfg_from :: string
  wecfg_to :: string
  wecfg_strength :: "real option"
  wecfg_phaseShift :: "real option"
  wecfg_bidirectional :: "bool option"

text \<open>
  \<open>registerResonanceEdge\<close>: when an endpoint is missing the code logs a warning and
  returns; nothing is thrown and nothing is stored.
\<close>

definition registerResonanceEdge :: "string \<Rightarrow> wave_edge_config \<Rightarrow> wave_graph \<Rightarrow> wave_graph" where
  "registerResonanceEdge ident config g =
     (case (map_of (wave_nodes g) (wecfg_from config), map_of (wave_nodes g) (wecfg_to config)) of
        (Some fromNode, Some toNode) \<Rightarrow>
          g\<lparr>wave_edges := AList.update ident
               \<lparr>we_id = ident, we_from = wecfg_from config, we_to = wecfg_to config,
                we_strength = (case wecfg_strength config of
                                 None \<Rightarrow> 1
                               | Some w \<Rightarrow> if w = 0 then 1 else w),
                phaseShift = orElse (wecfg_phaseShift config) 0,
                harmonicResonance = calculateHarmonicResonance (frequency toNode / frequency fromNode),
                we_bidirectional = orElse (wecfg_bidirectional config) False\<rparr>
               (wave_edges g)\<rparr>
      | _ \<Rightarrow> g)"

subsection \<open>One timestep\<close>

text \<open>JavaScript's \<open>%\<close> with divisor 1 on a number: the fractional part, with the sign of the dividend.\<close>

definition fmod1 :: "real \<Rightarrow> real" where
  "fmod1 x = x - of_int (if 0 \<le> x then \<lfloor>x\<rfloor> else \<lceil>x\<rceil>)"

definition generateWave :: "real \<Rightarrow> real \<Rightarrow> real \<Rightarrow> real \<Rightarrow> string \<Rightarrow> real" where
  "generateWave amp freq ph t form =
     (let omega = 2 * pi * freq;
          arg = omega * t + ph
      in if form = ''sine'' then amp * sin arg
         else if form = ''square'' then amp * sgn (sin arg)
         else if form = ''sawtooth''
           then amp * (2 * (arg / (2 * pi) - of_int \<lfloor>arg / (2 * pi) + 0.5\<rfloor>))
         else if form = ''triangle''
           then (let tt = fmod1 (arg / (2 * pi))
                 in amp * (if tt < 0.5 then 4 * tt - 1 else - 4 * tt + 3))
         else amp * sin arg)"

definition setFieldValue :: "string \<times> wave_node \<Rightarrow> wave_graph \<Rightarrow> wave_graph" where
  "setFieldValue entry g =
     g\<lparr>fieldState := AList.update (fst entry)
          (generateWave (amplitude (snd entry)) (frequency (snd entry)) (phase (snd entry))
             (time g) (waveform (snd entry)))
          (fieldState g)\<rparr>"

text \<open>The new amplitude of the target of a coupling that transfers \<open>transferred\<close>.\<close>

definition coupledAmplitude :: "real \<Rightarrow> real \<Rightarrow> real" where
  "coupledAmplitude a transferred = min 1 (a + \<bar>transferred\<bar> * 0.01)"

text \<open>
  The loop over the edges. It ends early when the handler of a target throws, or when
  the handler's argument reads the frequency of a source node that does not exist (a
  \<open>TypeError\<close>); the state reached so far is returned with the error.
\<close>

fun applyCouplings :: "wave_edge list \<Rightarrow> wave_graph \<Rightarrow> error option \<times> wave_graph" where
  "applyCouplings [] g = (None, g)"
| "applyCouplings (e # es) g =
     (case map_of (wave_nodes g) (we_to e) of
        None \<Rightarrow> applyCouplings es g
      | Some targetNode \<Rightarrow>
          (let sourceValue = orElse (map_of (fieldState g) (we_from e)) 0;
               transferred = sourceValue * we_strength e * harmonicResonance e * cos (phaseShift e);
               a = coupledAmplitude (amplitude targetNode) transferred;
               g' = g\<lparr>wave_nodes := AList.update (we_to e) (targetNode\<lparr>amplitude := a\<rparr>) (wave_nodes g)\<rparr>
           in if a > 0.5
              then (case wn_handler targetNode of
                      None \<Rightarrow> applyCouplings es g'
                    | Some h \<Rightarrow>
                        (case map_of (wave_nodes g') (we_from e) of
                           None \<Rightarrow> (Some (TypeError ''Cannot read properties of undefined (reading frequency)''), g')
                         | Some sourceNode \<Rightarrow>
                             (case h a (frequency sourceNode) (harmonicResonance e) of
                                Some err \<Rightarrow> (Some err, g')
                              | None \<Rightarrow> applyCouplings es g')))
              else applyCouplings es g'))"

text \<open>\<open>_learnResonancePatterns\<close>: the pairs \<open>i < j\<close> of the active nodes.\<close>

definition resonanceEdgeExists :: "string \<Rightarrow> string \<Rightarrow> wave_graph \<Rightarrow> bool" where
  "resonanceEdgeExists a b g =
     list_ex (\<lambda>e. (we_from e = a \<and> we_to e = b) \<or> (we_from e = b \<and> we_to e = a))
       (map snd (wave_edges g))"

definition learnPair :: "wave_node \<Rightarrow> wave_node \<Rightarrow> wave_graph \<Rightarrow> wave_graph" where
  "learnPair nodeA nodeB g =
     (let fr = frequency nodeB / frequency nodeA;
          res = calculateHarmonicResonance fr
      in if res > 0.6 \<and> \<not> resonanceEdgeExists (wn_id nodeA) (wn_id nodeB) g
         then g\<lparr>proposedResonances := proposedResonances g @
                 [\<lparr>pr_from = wn_id nodeA, pr_to = wn_id nodeB, resonance = res, freqRatio = fr\<rparr>]\<rparr>
         else g)"

fun learnPairs :: "wave_node list \<Rightarrow> wave_graph \<Rightarrow> wave_graph" where
  "learnPairs [] g = g"
| "learnPairs (nodeA # rest) g = learnPairs rest (fold (learnPair nodeA) rest g)"

definition learnResonancePatterns :: "wave_graph \<Rightarrow> wave_graph" where
  "learnResonancePatterns g =
     learnPairs (filter (\<lambda>n. amplitude n > 0.3) (map snd (wave_nodes g))) g"

definition updateWaveField :: "nat \<Rightarrow> wave_graph \<Rightarrow> error option \<times> wave_graph" where
  "updateWaveField step g =
     (let g1 = g\<lparr>time := real step / sampleRate g\<rparr>;
          g2 = fold setFieldValue (wave_nodes g1) g1
      in case applyCouplings (map snd (wave_edges g2)) g2 of
           (Some err, g3) \<Rightarrow> (Some err, g3)
         | (None, g3) \<Rightarrow>
             (None, if step mod 100 = 0 then learnResonancePatterns g3 else g3))"

subsection \<open>broadcast\<close>

text \<open>
  The loop of \<open>broadcast\<close> that excites the members of the group; the \<open>k\<close>-th member
  draws \<open>rnd k\<close> from \<open>Math.random()\<close> for its phase. Assigning to a node that the
  map does not hold throws a \<open>TypeError\<close>; the state reached so far is returned with it.
\<close>

fun exciteAll ::
  "string list \<Rightarrow> real \<Rightarrow> (nat \<Rightarrow> real) \<Rightarrow> nat \<Rightarrow> wave_graph \<Rightarrow> error option \<times> wave_graph" where
  "exciteAll [] amp rnd k g = (None, g)"
| "exciteAll (nodeId # rest) amp rnd k g =
     (case map_of (wave_nodes g) nodeId of
        None \<Rightarrow> (Some (TypeError ''Cannot set properties of undefined (setting amplitude)''), g)
      | Some n \<Rightarrow>
          exciteAll rest amp rnd (Suc k)
            (g\<lparr>wave_nodes := AList.update nodeId (n\<lparr>amplitude := amp, phase := rnd k * pi * 2\<rparr>)
                 (wave_nodes g)\<rparr>))"

definition groupMembers :: "string \<Rightarrow> wave_graph \<Rightarrow> string list" where
  "groupMembers groupName g =
     map wn_id (filter (\<lambda>n. groupName \<in> set (wn_groups n)) (map snd (wave_nodes g)))"

text \<open>
  \<open>broadcast\<close> returns nothing (\<open>None\<close>) for a group without nodes, and the ids of
  the members otherwise.
\<close>

definition waveBroadcast ::
  "string \<Rightarrow> real \<Rightarrow> (nat \<Rightarrow> real) \<Rightarrow> wave_graph \<Rightarrow> (error + string list option) \<times> wave_graph" where
  "waveBroadcast groupName amp rnd g =
     (let nodeIds = groupMembers groupName g
      in if nodeIds = [] then (Inr None, g)
         else (case exciteAll nodeIds amp rnd 0 g of
                 (Some err, g1) \<Rightarrow> (Inl err, g1)
               | (None, g1) \<Rightarrow>
                   (case updateWaveField 0 g1 of
                      (Some err, g2) \<Rightarrow> (Inl err, g2)
                    | (None, g2) \<Rightarrow> (Inr (Some nodeIds), g2))))"

definition amplitudeOf :: "wave_graph \<Rightarrow> string \<Rightarrow> real option" where
  "amplitudeOf g ident = map_option amplitude (map_of (wave_nodes g) ident)"

section \<open>ReproductiveCausalGraph (reproductive-causal-graph.js)\<close>

subsection \<open>DNA\<close>

type_synonym genes = "(string \<times> real) list"

record body_genes =
  colorGenes :: genes
  toneGenes :: genes
  body_type :: string
  body_frequency :: real

record personality_crystal =
  mind :: body_genes
  space :: body_genes

record design_crystal =
  body :: body_genes
  ego :: body_genes

record integration_fields =
  mindBody :: body_genes
  mindSpace :: body_genes
  bodySpace :: body_genes
  fullIntegration :: body_genes

text \<open>
  A DNA object. The fields that \<open>_generateDNA\<close> and \<open>_crossoverDNA\<close>, the two
  producers of DNA, both set are plain fields. The identifier (set by
  \<open>_crossoverDNA\<close> only) and the three gene layers \<open>baseGenes\<close>,
  \<open>colorGenes\<close>, \<open>toneGenes\<close> that the methods read at the top level of the DNA
  are optional: \<open>None\<close> is a property that is not there (\<open>undefined\<close>).
\<close>

record dna =
  dna_id :: "string option"
  dna_generation :: nat
  dna_species :: string
  dna_parents :: "string option list"
  dna_ancestors :: "string option list"
  personalityCrystal :: personality_crystal
  designCrystal :: design_crystal
  magneticMonopole :: body_genes
  integrationFields :: integration_fields
  baseGenes :: "genes option"
  dna_colorGenes :: "genes option"
  dna_toneGenes :: "genes option"

definition colorNames :: "string list" where
  "colorNames = [''color1_appetite'', ''color2_taste'', ''color3_thirst'', ''color4_touch'',
     ''color5_sound'', ''color6_light'', ''color7_perspective'', ''color8_probability'',
     ''color9_necessity'', ''color10_desire'', ''color11_innocence'', ''color12_knowledge'',
     ''color13_purpose'']"

definition toneNames :: "string list" where
  "toneNames = [''tone1_security'', ''tone2_harmony'', ''tone3_action'', ''tone4_meditation'',
     ''tone5_expression'', ''tone6_acceptance'', ''tone7_doubt'', ''tone8_certainty'',
     ''tone9_expansion'', ''tone10_contraction'', ''tone11_spirit'', ''tone12_body'',
     ''tone13_integration'']"

text \<open>
  \<open>_generateBodyGenes\<close> draws 27 numbers from \<open>Math.random()\<close>; \<open>rnd\<close> is the
  sequence of the numbers drawn and \<open>k\<close> the position of the first one used here.
\<close>

definition generateBodyGenes :: "string \<Rightarrow> (nat \<Rightarrow> real) \<Rightarrow> nat \<Rightarrow> body_genes" where
  "generateBodyGenes bodyType rnd k =
     \<lparr>colorGenes = zip colorNames (map rnd [k ..< k + 13]),
      toneGenes = zip toneNames (map rnd [k + 13 ..< k + 26]),
      body_type = bodyType,
      body_frequency = 200 + rnd (k + 26) * 800\<rparr>"

definition generateDNA :: "(nat \<Rightarrow> real) \<Rightarrow> dna" where
  "generateDNA rnd =
     \<lparr>dna_id = None,
      dna_generation = 0,
      dna_species = ''primordial'',
      dna_parents = [],
      dna_ancestors = [],
      personalityCrystal = \<lparr>mind = generateBodyGenes ''mind'' rnd 0,
                            space = generateBodyGenes ''space'' rnd 27\<rparr>,
      designCrystal = \<lparr>body = generateBodyGenes ''body'' rnd 54,
                       ego = generateBodyGenes ''ego'' rnd 81\<rparr>,
      magneticMonopole = generateBodyGenes ''monopole'' rnd 108,
      integrationFields = \<lparr>mindBody = generateBodyGenes ''mind_body'' rnd 135,
                           mindSpace = generateBodyGenes ''mind_space'' rnd 162,
                           bodySpace = generateBodyGenes ''body_space'' rnd 189,
                           fullIntegration = generateBodyGenes ''unified'' rnd 216\<rparr>,
      baseGenes = None,
      dna_colorGenes = None,
      dna_toneGenes = None\<rparr>"

subsection \<open>The graph object\<close>

text \<open>
  Times are milliseconds. \<open>offspring\<close> holds the babies; the model keeps the DNA of
  each.
\<close>

record repro_graph =
  rg_graph :: wave_graph
  rg_dna :: dna
  generation :: nat
  species :: string
  parents :: "string option list"
  ancestors :: "string option list"
  offspring :: "dna list"
  birthTime :: int
  age :: int
  fitness :: real
  successfulMatings :: nat
  mutations :: "jsobject list"
  fertile :: bool
  minMatingAge :: int
  cooldownPeriod :: int
  lastMating :: int

text \<open>
  The constructor: \<open>dna || this._generateDNA()\<close>, \<open>this.dna.species || 'primordial'\<close>
  and so on.
\<close>

definition newReproGraph :: "dna option \<Rightarrow> (nat \<Rightarrow> real) \<Rightarrow> int \<Rightarrow> repro_graph" where
  "newReproGraph given rnd now =
     (let d = (case given of None \<Rightarrow> generateDNA rnd | Some x \<Rightarrow> x)
      in \<lparr>rg_graph = newWaveGraph,
          rg_dna = d,
          generation = dna_generation d,
          species = (if dna_species d = [] then ''primordial'' else dna_species d),
          parents = dna_parents d,
          ancestors = dna_ancestors d,
          offspring = [],
          birthTime = now,
          age = 0,
          fitness = 0,
          successfulMatings = 0,
          mutations = [],
          fertile = True,
          minMatingAge = 60000,
          cooldownPeriod = 30000,
          lastMating = 0\<rparr>)"

subsection \<open>Mating\<close>

text \<open>
  A number that may be \<open>NaN\<close> (\<open>None\<close>): arithmetic with \<open>undefined\<close> or
  \<open>NaN\<close> gives \<open>NaN\<close>, and a comparison with \<open>NaN\<close> is false.
\<close>

type_synonym jsnum = "real option"

text \<open>
  One of the three loops of \<open>_calculateGeneticDistance\<close>, over the entries of a gene
  layer of this graph, with \<open>totalDiff\<close> and \<open>count\<close> as accumulator. Indexing the
  other graph's layer throws a \<open>TypeError\<close> when that layer is undefined; a gene the
  other layer lacks reads as \<open>undefined\<close> and turns the total into \<open>NaN\<close>.
\<close>

fun layerDistance :: "genes \<Rightarrow> genes option \<Rightarrow> jsnum \<times> nat \<Rightarrow> error + jsnum \<times> nat" where
  "layerDistance [] theirs acc = Inr acc"
| "layerDistance ((geneName, geneValue) # rest) theirs (totalDiff, count) =
     (case theirs of
        None \<Rightarrow> Inl (TypeError ''Cannot read properties of undefined'')
      | Some other \<Rightarrow>
          layerDistance rest theirs
            ((case (totalDiff, map_of other geneName) of
                (Some t, Some otherValue) \<Rightarrow> Some (t + \<bar>geneValue - otherValue\<bar>)
              | _ \<Rightarrow> None),
             Suc count))"

text \<open>\<open>Object.entries\<close> of an undefined layer throws a \<open>TypeError\<close>.\<close>

definition layerOf :: "genes option \<Rightarrow> genes option \<Rightarrow> jsnum \<times> nat \<Rightarrow> error + jsnum \<times> nat" where
  "layerOf mine theirs acc =
     (case mine of
        None \<Rightarrow> Inl (TypeError ''Cannot convert undefined or null to object'')
      | Some entries \<Rightarrow> layerDistance entries theirs acc)"

definition calculateGeneticDistance :: "repro_graph \<Rightarrow> repro_graph \<Rightarrow> error + jsnum" where
  "calculateGeneticDistance g otherGraph =
     (case layerOf (baseGenes (rg_dna g)) (baseGenes (rg_dna otherGraph)) (Some 0, 0) of
        Inl e \<Rightarrow> Inl e
      | Inr acc1 \<Rightarrow>
          (case layerOf (dna_colorGenes (rg_dna g)) (dna_colorGenes (rg_dna otherGraph)) acc1 of
             Inl e \<Rightarrow> Inl e
           | Inr acc2 \<Rightarrow>
               (case layerOf (dna_toneGenes (rg_dna g)) (dna_toneGenes (rg_dna otherGraph)) acc2 of
                  Inl e \<Rightarrow> Inl e
                | Inr (totalDiff, count) \<Rightarrow>
                    Inr (case totalDiff of
                           None \<Rightarrow> None
                         | Some t \<Rightarrow> if count = 0 then None else Some (t / real count)))))"

text \<open>Reading the gene \<open>name\<close> of the base layer: a \<open>TypeError\<close> when the layer is undefined.\<close>

definition baseGene :: "repro_graph \<Rightarrow> string \<Rightarrow> error + jsnum" where
  "baseGene g name =
     (case baseGenes (rg_dna g) of
        None \<Rightarrow> Inl (TypeError ''Cannot read properties of undefined'')
      | Some layer \<Rightarrow> Inr (map_of layer name))"

definition calculateHybridVigor :: "repro_graph \<Rightarrow> repro_graph \<Rightarrow> error + jsnum" where
  "calculateHybridVigor g otherGraph =
     (case baseGene g ''hybridVigor'' of
        Inl e \<Rightarrow> Inl e
      | Inr mine \<Rightarrow>
          (case baseGene otherGraph ''hybridVigor'' of
             Inl e \<Rightarrow> Inl e
           | Inr theirs \<Rightarrow>
               (case calculateGeneticDistance g otherGraph of
                  Inl e \<Rightarrow> Inl e
                | Inr geneticDistance \<Rightarrow>
                    Inr (case (mine, theirs, geneticDistance) of
                           (Some a, Some b, Some d) \<Rightarrow> Some ((a + b) / 2 * (1 - \<bar>d - 0.3\<bar>))
                         | _ \<Rightarrow> None))))"

datatype compatibility = Incompatible string | Compatible jsnum jsnum

definition isTooRelated :: "repro_graph \<Rightarrow> repro_graph \<Rightarrow> bool" where
  "isTooRelated g otherGraph =
     (dna_id (rg_dna otherGraph) \<in> set (ancestors g) \<or>
      dna_id (rg_dna g) \<in> set (ancestors otherGraph) \<or>
      dna_id (rg_dna otherGraph) \<in> set (parents g) \<or>
      dna_id (rg_dna g) \<in> set (parents otherGraph))"

definition canMateWith :: "repro_graph \<Rightarrow> repro_graph \<Rightarrow> int \<Rightarrow> error + compatibility" where
  "canMateWith g otherGraph now =
     (if age g < minMatingAge g \<or> age otherGraph < minMatingAge otherGraph
        then Inr (Incompatible ''too_young'')
      else if now - lastMating g < cooldownPeriod g
        then Inr (Incompatible ''cooldown'')
      else if isTooRelated g otherGraph
        then Inr (Incompatible ''too_related'')
      else
        (case calculateGeneticDistance g otherGraph of
           Inl e \<Rightarrow> Inl e
         | Inr geneticDistance \<Rightarrow>
             if (case geneticDistance of None \<Rightarrow> False | Some d \<Rightarrow> d > 0.8)
             then Inr (Incompatible ''too_different'')
             else (case calculateHybridVigor g otherGraph of
                     Inl e \<Rightarrow> Inl e
                   | Inr vigor \<Rightarrow> Inr (Compatible geneticDistance vigor))))"

text \<open>
  \<open>mateWith\<close> starts with the compatibility check and throws when the answer is not
  compatible. What follows (the offspring count, crossover, mutation, the construction
  of the babies, the mating statistics) runs only after a compatible answer; it is the
  parameter \<open>breed\<close> of the model, so that a statement about \<open>mateWith\<close> holds
  whatever that part does.
\<close>

definition mateWith ::
  "(repro_graph \<Rightarrow> repro_graph \<Rightarrow> error + 'babies) \<Rightarrow> repro_graph \<Rightarrow> repro_graph \<Rightarrow> int
     \<Rightarrow> error + 'babies" where
  "mateWith breed g otherGraph now =
     (case canMateWith g otherGraph now of
        Inl e \<Rightarrow> Inl e
      | Inr (Incompatible why) \<Rightarrow> Inl (JsError ''Error'' (''Cannot mate: '' @ why))
      | Inr (Compatible d v) \<Rightarrow> breed g otherGraph)"

section \<open>Scenarios and predicates used in the properties\<close>

text \<open>\<open>registerNode(id, {})\<close> and \<open>registerCausalEdge(id, {from, to, strength})\<close>.\<close>

definition plainNode :: node_config where
  "plainNode = \<lparr>cfg_type = None, cfg_data = None, cfg_handlers = None, cfg_groups = None,
     cfg_metadata = None\<rparr>"

definition weighted :: "string \<Rightarrow> string \<Rightarrow> real \<Rightarrow> edge_config" where
  "weighted src tgt w = \<lparr>ecfg_from = src, ecfg_to = tgt, ecfg_strength = Some w,
     ecfg_delay = None, ecfg_conditions = None, ecfg_transform = None,
     ecfg_bidirectional = None, ecfg_metadata = None\<rparr>"

text \<open>Nodes A, B, C with A\<rightarrow>B of weight 0.8 and B\<rightarrow>C of weight 0.5.\<close>

definition chainCalls :: "call list" where
  "chainCalls =
     [RegisterNode ''A'' plainNode, RegisterNode ''B'' plainNode, RegisterNode ''C'' plainNode,
      RegisterCausalEdge ''ab'' (weighted ''A'' ''B'' 0.8),
      RegisterCausalEdge ''bc'' (weighted ''B'' ''C'' 0.5)]"

definition chainGraph :: substrate where
  "chainGraph = performAll chainCalls newSubstrate"

text \<open>Nodes A, B with A\<rightarrow>B and B\<rightarrow>A, both of weight 1.\<close>

definition cycleGraph :: substrate where
  "cycleGraph = performAll
     [RegisterNode ''A'' plainNode, RegisterNode ''B'' plainNode,
      RegisterCausalEdge ''ab'' (weighted ''A'' ''B'' 1),
      RegisterCausalEdge ''ba'' (weighted ''B'' ''A'' 1)] newSubstrate"

text \<open>Every stored activation is at most 1.\<close>

definition atMostOne :: "substrate \<Rightarrow> bool" where
  "atMostOne s = (\<forall>k a. activationOf s k = Some a \<longrightarrow> a \<le> 1)"

text \<open>
  An edge that cannot turn a non-negative signal negative; a state in which every
  activation, every queued or scheduled signal and every edge is of that kind; a call
  that keeps it so.
\<close>

definition edgeNonneg :: "edge \<Rightarrow> bool" where
  "edgeNonneg e = (0 \<le> strength e \<and>
     (case transform e of None \<Rightarrow> True | Some t \<Rightarrow> \<forall>x md. 0 \<le> x \<longrightarrow> 0 \<le> t x md))"

definition signalsNonneg :: "substrate \<Rightarrow> bool" where
  "signalsNonneg s =
     ((\<forall>k a. activationOf s k = Some a \<longrightarrow> 0 \<le> a) \<and>
      (\<forall>m \<in> set (messageQueue s). 0 \<le> msg_signal m) \<and>
      (\<forall>tm \<in> set (pendingTimers s). 0 \<le> msg_signal (snd tm)) \<and>
      (\<forall>e \<in> set (edges s). edgeNonneg (snd e)))"

fun nonnegCall :: "call \<Rightarrow> bool" where
  "nonnegCall (RegisterNode ident config) = True"
| "nonnegCall (RegisterCausalEdge ident config) =
     ((case ecfg_strength config of None \<Rightarrow> True | Some w \<Rightarrow> 0 \<le> w) \<and>
      (case ecfg_transform config of None \<Rightarrow> True | Some t \<Rightarrow> \<forall>x md. 0 \<le> x \<longrightarrow> 0 \<le> t x md))"
| "nonnegCall (Propagate src signal metadata pid now) = (0 \<le> signal)"
| "nonnegCall (Broadcast grp signal metadata pids now) = (0 \<le> signal)"
| "nonnegCall (TimerFires i now) = True"

text \<open>
  What a run depends on: the targets and signals of the queued messages and the
  activations, and the run as a function of these alone.
\<close>

definition queueView :: "substrate \<Rightarrow> (string \<times> real) list" where
  "queueView s = map (\<lambda>m. (msg_to m, msg_signal m)) (messageQueue s)"

definition resultView :: "activation_result option list \<Rightarrow> (string \<times> real) option list" where
  "resultView rs = map (map_option (\<lambda>r. (res_nodeId r, res_activation r))) rs"

fun visitTrace ::
  "(string \<times> real) list \<Rightarrow> string set \<Rightarrow> (string \<Rightarrow> real option) \<Rightarrow> (string \<times> real) option list
     \<Rightarrow> (string \<times> real) option list \<times> (string \<Rightarrow> real option)" where
  "visitTrace [] V acts R = (R, acts)"
| "visitTrace ((t, signal) # q) V acts R =
     (if t \<in> V then visitTrace q V acts R
      else (case acts t of
              None \<Rightarrow> visitTrace q (insert t V) acts (R @ [None])
            | Some a \<Rightarrow>
                visitTrace q (insert t V) (acts(t \<mapsto> min 1 (a + signal)))
                  (R @ [Some (t, min 1 (a + signal))])))"

text \<open>The change of a node's activation between two states.\<close>

definition activationDelta :: "substrate \<Rightarrow> substrate \<Rightarrow> string \<Rightarrow> real option" where
  "activationDelta s s' ident =
     (case (activationOf s ident, activationOf s' ident) of
        (Some a, Some b) \<Rightarrow> Some (b - a)
      | _ \<Rightarrow> None)"

text \<open>The results that are not null.\<close>

fun somes :: "'a option list \<Rightarrow> 'a list" where
  "somes [] = []"
| "somes (None # xs) = somes xs"
| "somes (Some x # xs) = x # somes xs"

definition someIds :: "(string \<times> real) option list \<Rightarrow> string list" where
  "someIds R = map fst (somes R)"










text \<open>The amplitude of a wave node is in [0, 1].\<close>

definition within01 :: "wave_node \<Rightarrow> bool" where
  "within01 n = (0 \<le> amplitude n \<and> amplitude n \<le> 1)"

text \<open>
  Two nodes of the group g with an edge n1\<rightarrow>n2, and the state in which
  \<open>broadcast('g', amp)\<close> starts its timestep: both nodes excited with \<open>amp\<close>.
\<close>

definition gateNode :: wave_node_config where
  "gateNode = \<lparr>wcfg_gate = 1, wcfg_line = None, wcfg_color = None, wcfg_tone = None,
     wcfg_field = ''Heart'', wcfg_waveform = None, wcfg_handler = None,
     wcfg_groups = Some [''g''], wcfg_metadata = None\<rparr>"

definition pairNodes :: wave_graph where
  "pairNodes = waveRegisterNode ''n2'' gateNode 0 (waveRegisterNode ''n1'' gateNode 0 newWaveGraph)"

definition plainCoupling :: wave_edge_config where
  "plainCoupling = \<lparr>wecfg_from = ''n1'', wecfg_to = ''n2'', wecfg_strength = None,
     wecfg_phaseShift = None, wecfg_bidirectional = None\<rparr>"

definition pairGraph :: wave_graph where
  "pairGraph = registerResonanceEdge ''e'' plainCoupling pairNodes"

definition excited :: "real \<Rightarrow> wave_graph" where
  "excited amp = snd (exciteAll (groupMembers ''g'' pairGraph) amp (\<lambda>k. 0) 0 pairGraph)"

text \<open>A graph built by \<open>new ReproductiveCausalGraph()\<close> whose age has been brought to \<open>a\<close>.\<close>

definition grownGraph :: "(nat \<Rightarrow> real) \<Rightarrow> int \<Rightarrow> repro_graph" where
  "grownGraph rnd a = (newReproGraph None rnd 0)\<lparr>age := a\<rparr>"

section \<open>Properties of the substrate\<close>

named_theorems substrate_defs

lemmas [substrate_defs] = visitMessage_def performAll_def newSubstrate_def registerNode_def
  registerCausalEdge_def propagate_def activateNode_def orElse_def findOutgoingEdges_def
  outgoingOf_def scheduleEdge_def learnPattern_def learnStep_def learnOne_def edgeExists_def
  activationOf_def timerFires_def addToGroup_def TypeError_def getProposedEvolutions_def
  arrow_def broadcast_def plainNode_def weighted_def runQueue.simps

subsection \<open>The loop of propagate\<close>

declare runQueue.simps [simp del]

lemma runQueue_rule:
  assumes init: "I visited results s"
    and skip: "\<And>V R s m rest. I V R s \<Longrightarrow> messageQueue s = m # rest \<Longrightarrow>
            msg_to m @ ''_'' @ pid \<in> V \<Longrightarrow> I V R (s\<lparr>messageQueue := rest\<rparr>)"
    and visit: "\<And>V R s m rest. I V R s \<Longrightarrow> messageQueue s = m # rest \<Longrightarrow>
            msg_to m @ ''_'' @ pid \<notin> V \<Longrightarrow>
            I (insert (msg_to m @ ''_'' @ pid) V)
              (R @ [fst (visitMessage pid now m (s\<lparr>messageQueue := rest\<rparr>))])
              (snd (visitMessage pid now m (s\<lparr>messageQueue := rest\<rparr>)))"
  shows "\<exists>V. I V (fst (runQueue pid now visited results s)) (snd (runQueue pid now visited results s))"
  using init
proof (induction n \<equiv> "length (messageQueue s)" arbitrary: visited results s)
  case 0
  then have "messageQueue s = []" by simp
  then have "runQueue pid now visited results s = (results, s)"
    by (simp add: runQueue.simps [of pid now visited results s])
  then show ?case using "0.prems" by auto
next
  case (Suc n)
  then obtain m rest where q: "messageQueue s = m # rest" and n: "n = length rest"
    by (cases "messageQueue s") auto
  show ?case
  proof (cases "msg_to m @ ''_'' @ pid \<in> visited")
    case True
    have eq: "runQueue pid now visited results s = runQueue pid now visited results (s\<lparr>messageQueue := rest\<rparr>)"
      using q True by (simp add: runQueue.simps [of pid now visited results s])
    have "I visited results (s\<lparr>messageQueue := rest\<rparr>)"
      using skip [OF Suc.prems q True] .
    then show ?thesis
      using Suc.hyps(1) [of "s\<lparr>messageQueue := rest\<rparr>" visited results] n by (simp add: eq)
  next
    case False
    let ?v = "visitMessage pid now m (s\<lparr>messageQueue := rest\<rparr>)"
    have eq: "runQueue pid now visited results s =
        runQueue pid now (insert (msg_to m @ ''_'' @ pid) visited) (results @ [fst ?v]) (snd ?v)"
      using q False by (simp add: runQueue.simps [of pid now visited results s] split: prod.split)
    have "I (insert (msg_to m @ ''_'' @ pid) visited) (results @ [fst ?v]) (snd ?v)"
      using visit [OF Suc.prems q False] .
    moreover have "n = length (messageQueue (snd ?v))" using n by simp
    ultimately show ?thesis
      using Suc.hyps(1) [of "snd ?v" "insert (msg_to m @ ''_'' @ pid) visited" "results @ [fst ?v]"]
      by (simp add: eq)
  qed
qed


subsection \<open>What each step does to the activations\<close>

lemma runHandlers_activation [simp]:
  "activation (fst (runHandlers hs signal metadata n results)) = activation n"
  by (induction hs arbitrary: n results) (auto split: handler_outcome.split)

lemma activationOf_activateNode:
  "activationOf (snd (activateNode t signal metadata now s)) k =
     (if k = t then map_option (\<lambda>a. min 1 (a + signal)) (activationOf s t) else activationOf s k)"
proof (cases "map_of (nodes s) t")
  case None
  then show ?thesis by (simp add: activateNode_def activationOf_def)
next
  case (Some n)
  obtain n' rs where h: "runHandlers (handlers n) signal metadata
      (n\<lparr>activation := min 1 (activation n + signal), lastFired := Some now\<rparr>) [] = (n', rs)"
    by (cases "runHandlers (handlers n) signal metadata
      (n\<lparr>activation := min 1 (activation n + signal), lastFired := Some now\<rparr>) []")
  have "activation n' = min 1 (activation n + signal)"
    using runHandlers_activation [of "handlers n" signal metadata
        "n\<lparr>activation := min 1 (activation n + signal), lastFired := Some now\<rparr>" "[]"] h
    by simp
  then show ?thesis
    using Some h by (simp add: activateNode_def activationOf_def update_conv')
qed

lemma nodes_scheduleEdge [simp]: "nodes (scheduleEdge pid m e s) = nodes s"
  by (simp add: scheduleEdge_def Let_def)

lemma nodes_fold_scheduleEdge [simp]: "nodes (fold (scheduleEdge pid m) es s) = nodes s"
  by (induction es arbitrary: s) simp_all

lemma edges_scheduleEdge [simp]: "edges (scheduleEdge pid m e s) = edges s"
  by (simp add: scheduleEdge_def Let_def)

lemma edges_fold_scheduleEdge [simp]: "edges (fold (scheduleEdge pid m) es s) = edges s"
  by (induction es arbitrary: s) simp_all

lemma edges_activateNode [simp]: "edges (snd (activateNode t signal metadata now s)) = edges s"
  by (simp add: activateNode_def split: option.split prod.split)

lemma pendingTimers_activateNode [simp]:
  "pendingTimers (snd (activateNode t signal metadata now s)) = pendingTimers s"
  by (simp add: activateNode_def split: option.split prod.split)

lemma activationOf_visitMessage:
  "activationOf (snd (visitMessage pid now m s)) k =
     (if k = msg_to m then map_option (\<lambda>a. min 1 (a + msg_signal m)) (activationOf s (msg_to m))
      else activationOf s k)"
proof -
  obtain r s' where a: "activateNode (msg_to m) (msg_signal m) (msg_metadata m) now s = (r, s')"
    by (cases "activateNode (msg_to m) (msg_signal m) (msg_metadata m) now s")
  have "activationOf (snd (visitMessage pid now m s)) k = activationOf s' k"
    by (simp add: visitMessage_def a activationOf_def)
  then show ?thesis
    using activationOf_activateNode [of "msg_to m" "msg_signal m" "msg_metadata m" now s k] a by simp
qed

lemma edges_visitMessage [simp]: "edges (snd (visitMessage pid now m s)) = edges s"
proof -
  obtain r s' where a: "activateNode (msg_to m) (msg_signal m) (msg_metadata m) now s = (r, s')"
    by (cases "activateNode (msg_to m) (msg_signal m) (msg_metadata m) now s")
  then show ?thesis
    using edges_activateNode [of "msg_to m" "msg_signal m" "msg_metadata m" now s]
    by (simp add: visitMessage_def)
qed

lemma atMostOne_visitMessage: "atMostOne s \<Longrightarrow> atMostOne (snd (visitMessage pid now m s))"
  by (auto simp: atMostOne_def activationOf_visitMessage split: if_splits)

lemma activationOf_messageQueue_update [simp]:
  "activationOf (s\<lparr>messageQueue := q\<rparr>) = activationOf s"
  by (rule ext) (simp add: activationOf_def)

lemma atMostOne_runQueue:
  assumes "atMostOne s"
  shows "atMostOne (snd (runQueue pid now visited results s))"
proof -
  have "\<exists>V::string set. atMostOne (snd (runQueue pid now visited results s))"
  proof (rule runQueue_rule [where I = "\<lambda>V R s. atMostOne s"])
    show "atMostOne s" by fact
  next
    fix s :: substrate and rest
    assume "atMostOne s"
    then show "atMostOne (s\<lparr>messageQueue := rest\<rparr>)" by (simp add: atMostOne_def)
  next
    fix s :: substrate and m rest
    assume "atMostOne s"
    then have "atMostOne (s\<lparr>messageQueue := rest\<rparr>)" by (simp add: atMostOne_def)
    then show "atMostOne (snd (visitMessage pid now m (s\<lparr>messageQueue := rest\<rparr>)))"
      by (rule atMostOne_visitMessage)
  qed
  then show ?thesis by simp
qed

lemma nodes_learnOne [simp]: "nodes (learnOne src r s) = nodes s"
  by (simp add: learnOne_def Let_def)

lemma nodes_learnPattern [simp]: "nodes (learnPattern src rs s) = nodes s"
  unfolding learnPattern_def
  by (induction rs arbitrary: s) (simp_all add: learnStep_def split: option.split)

lemma activationOf_cong_nodes: "nodes s = nodes s' \<Longrightarrow> activationOf s = activationOf s'"
  by (rule ext) (simp add: activationOf_def)

lemma nodes_propagate:
  "nodes (snd (propagate src signal metadata pid now s)) =
   nodes (snd (runQueue pid now {} []
             (s\<lparr>messageQueue := messageQueue s @
                  [\<lparr>msg_id = pid, msg_from = None, msg_to = src, msg_signal = signal,
                    msg_metadata = metadata, msg_timestamp = now,
                    msg_path = [src]\<rparr>]\<rparr>)))"
  by (simp add: propagate_def Let_def split: prod.split sum.split)

lemma atMostOne_nodes: "nodes s = nodes s' \<Longrightarrow> atMostOne s = atMostOne s'"
  by (simp add: atMostOne_def activationOf_def)

lemma atMostOne_propagate:
  assumes "atMostOne s"
  shows "atMostOne (snd (propagate src signal metadata pid now s))"
proof -
  let ?s0 = "s\<lparr>messageQueue := messageQueue s @
                  [\<lparr>msg_id = pid, msg_from = None, msg_to = src, msg_signal = signal,
                    msg_metadata = metadata, msg_timestamp = now,
                    msg_path = [src]\<rparr>]\<rparr>"
  have "atMostOne ?s0" using assms by (simp add: atMostOne_def)
  then have "atMostOne (snd (runQueue pid now {} [] ?s0))" by (rule atMostOne_runQueue)
  then show ?thesis using atMostOne_nodes [OF nodes_propagate] by blast
qed

lemma atMostOne_broadcastMembers:
  "atMostOne s \<Longrightarrow> atMostOne (snd (broadcastMembers members signal metadata pids k now results s))"
proof (induction members arbitrary: k results s)
  case Nil
  then show ?case by simp
next
  case (Cons nodeId rest)
  obtain r s' where p: "propagate nodeId signal metadata (pids k) now s = (r, s')"
    by (cases "propagate nodeId signal metadata (pids k) now s")
  have s': "atMostOne s'"
    using atMostOne_propagate [OF Cons.prems, of nodeId signal metadata "pids k" now] p by simp
  show ?case
  proof (cases r)
    case (Inl e)
    then show ?thesis using p s' by simp
  next
    case (Inr res)
    then show ?thesis using p Cons.IH [OF s'] by simp
  qed
qed

lemma atMostOne_broadcast:
  "atMostOne s \<Longrightarrow> atMostOne (snd (broadcast grp signal metadata pids now s))"
  by (simp add: broadcast_def atMostOne_broadcastMembers split: option.split)

lemma nodes_addToGroup [simp]: "nodes (addToGroup ident grp s) = nodes s"
  by (simp add: addToGroup_def)

lemma nodes_fold_addToGroup [simp]: "nodes (fold (addToGroup ident) groups s) = nodes s"
  by (induction groups arbitrary: s) simp_all

lemma activationOf_registerNode:
  "activationOf (registerNode ident config s) k = (if k = ident then Some 0 else activationOf s k)"
  by (simp add: registerNode_def activationOf_def Let_def update_conv' split: option.split)

lemma atMostOne_perform: "atMostOne s \<Longrightarrow> atMostOne (perform c s)"
proof (cases c)
  case (RegisterNode ident config)
  assume "atMostOne s"
  then show ?thesis using RegisterNode
    by (auto simp: atMostOne_def activationOf_registerNode split: if_splits)
next
  case (RegisterCausalEdge ident config)
  assume "atMostOne s"
  then show ?thesis using RegisterCausalEdge
    by (simp add: atMostOne_def activationOf_def registerCausalEdge_def)
next
  case (Propagate src signal metadata pid now)
  assume "atMostOne s"
  then show ?thesis using Propagate by (simp add: atMostOne_propagate)
next
  case (Broadcast grp signal metadata pids now)
  assume "atMostOne s"
  then show ?thesis using Broadcast by (simp add: atMostOne_broadcast)
next
  case (TimerFires i now)
  assume "atMostOne s"
  then show ?thesis using TimerFires
    by (simp add: atMostOne_def activationOf_def timerFires_def)
qed

lemma atMostOne_performAll: "atMostOne s \<Longrightarrow> atMostOne (performAll cs s)"
  unfolding performAll_def
  by (induction cs arbitrary: s) (simp_all add: atMostOne_perform)

subsection \<open>Signals that stay non-negative\<close>

lemma set_update_subset: "set (AList.update k v al) \<subseteq> insert (k, v) (set al)"
  by (induction al) auto

lemma edgeNonneg_outgoingOf:
  "edgeNonneg e \<Longrightarrow> e' \<in> set (outgoingOf t e) \<Longrightarrow> edgeNonneg e'"
  by (auto simp: outgoingOf_def edgeNonneg_def split: if_splits)

lemma edgeNonneg_findOutgoingEdges:
  "\<forall>e \<in> set (edges s). edgeNonneg (snd e) \<Longrightarrow> e' \<in> set (findOutgoingEdges t s) \<Longrightarrow> edgeNonneg e'"
  by (auto simp: findOutgoingEdges_def dest: edgeNonneg_outgoingOf)

lemma pendingTimers_scheduleEdge_nonneg:
  assumes "\<forall>tm \<in> set (pendingTimers s). 0 \<le> msg_signal (snd tm)" "0 \<le> msg_signal m" "edgeNonneg e"
  shows "\<forall>tm \<in> set (pendingTimers (scheduleEdge pid m e s)). 0 \<le> msg_signal (snd tm)"
  using assms
  by (auto simp: scheduleEdge_def Let_def edgeNonneg_def split: option.splits)

lemma pendingTimers_fold_scheduleEdge_nonneg:
  assumes "\<forall>tm \<in> set (pendingTimers s). 0 \<le> msg_signal (snd tm)" "0 \<le> msg_signal m"
    "\<forall>e \<in> set es. edgeNonneg e"
  shows "\<forall>tm \<in> set (pendingTimers (fold (scheduleEdge pid m) es s)). 0 \<le> msg_signal (snd tm)"
  using assms
proof (induction es arbitrary: s)
  case Nil
  then show ?case by simp
next
  case (Cons e es)
  have "\<forall>tm \<in> set (pendingTimers (scheduleEdge pid m e s)). 0 \<le> msg_signal (snd tm)"
    using Cons.prems by (intro pendingTimers_scheduleEdge_nonneg) auto
  then show ?case using Cons.IH [of "scheduleEdge pid m e s"] Cons.prems by simp
qed

lemma signalsNonneg_visitMessage:
  assumes "signalsNonneg s" "0 \<le> msg_signal m"
  shows "signalsNonneg (snd (visitMessage pid now m s))"
proof -
  obtain r s' where a: "activateNode (msg_to m) (msg_signal m) (msg_metadata m) now s = (r, s')"
    by (cases "activateNode (msg_to m) (msg_signal m) (msg_metadata m) now s")
  have e': "edges s' = edges s"
    using edges_activateNode [of "msg_to m" "msg_signal m" "msg_metadata m" now s] a by simp
  have t': "pendingTimers s' = pendingTimers s"
    using pendingTimers_activateNode [of "msg_to m" "msg_signal m" "msg_metadata m" now s] a by simp
  have v: "snd (visitMessage pid now m s) = fold (scheduleEdge pid m) (findOutgoingEdges (msg_to m) s') s'"
    by (simp add: visitMessage_def a)
  have 1: "\<forall>k a. activationOf (snd (visitMessage pid now m s)) k = Some a \<longrightarrow> 0 \<le> a"
    using assms by (auto simp: activationOf_visitMessage signalsNonneg_def split: if_splits)
  have 2: "\<forall>m' \<in> set (messageQueue (snd (visitMessage pid now m s))). 0 \<le> msg_signal m'"
    using assms by (simp add: signalsNonneg_def)
  have out: "\<forall>e \<in> set (findOutgoingEdges (msg_to m) s'). edgeNonneg e"
    using assms(1) e' edgeNonneg_findOutgoingEdges [of s'] by (auto simp: signalsNonneg_def)
  have 3: "\<forall>tm \<in> set (pendingTimers (snd (visitMessage pid now m s))). 0 \<le> msg_signal (snd tm)"
    unfolding v
    by (rule pendingTimers_fold_scheduleEdge_nonneg) (use assms t' out in \<open>auto simp: signalsNonneg_def\<close>)
  have 4: "\<forall>e \<in> set (edges (snd (visitMessage pid now m s))). edgeNonneg (snd e)"
    using assms by (simp add: signalsNonneg_def)
  show ?thesis unfolding signalsNonneg_def using 1 2 3 4 by blast
qed

lemma signalsNonneg_runQueue:
  assumes "signalsNonneg s"
  shows "signalsNonneg (snd (runQueue pid now visited results s))"
proof -
  have "\<exists>V::string set. signalsNonneg (snd (runQueue pid now visited results s))"
  proof (rule runQueue_rule [where I = "\<lambda>V R s. signalsNonneg s"])
    show "signalsNonneg s" by fact
  next
    fix s :: substrate and m rest
    assume "signalsNonneg s" "messageQueue s = m # rest"
    then show "signalsNonneg (s\<lparr>messageQueue := rest\<rparr>)" by (simp add: signalsNonneg_def)
  next
    fix s :: substrate and m rest
    assume a: "signalsNonneg s" "messageQueue s = m # rest"
    then have "signalsNonneg (s\<lparr>messageQueue := rest\<rparr>)" "0 \<le> msg_signal m"
      by (simp_all add: signalsNonneg_def)
    then show "signalsNonneg (snd (visitMessage pid now m (s\<lparr>messageQueue := rest\<rparr>)))"
      by (rule signalsNonneg_visitMessage)
  qed
  then show ?thesis by simp
qed

lemma learnOne_fields [simp]:
  "edges (learnOne src r s) = edges s"
  "messageQueue (learnOne src r s) = messageQueue s"
  "pendingTimers (learnOne src r s) = pendingTimers s"
  by (simp_all add: learnOne_def Let_def)

lemma learnPattern_fields [simp]:
  "edges (learnPattern src rs s) = edges s"
  "messageQueue (learnPattern src rs s) = messageQueue s"
  "pendingTimers (learnPattern src rs s) = pendingTimers s"
  unfolding learnPattern_def
  by (induction rs arbitrary: s; simp add: learnStep_def split: option.split)+

lemma signalsNonneg_learnPattern:
  "signalsNonneg (learnPattern src rs s) = signalsNonneg s"
  by (simp add: signalsNonneg_def activationOf_def)

lemma snd_propagate:
  "snd (propagate src signal metadata pid now s) =
   learnPattern src
     (fst (runQueue pid now {} []
             (s\<lparr>messageQueue := messageQueue s @
                  [\<lparr>msg_id = pid, msg_from = None, msg_to = src, msg_signal = signal,
                    msg_metadata = metadata, msg_timestamp = now,
                    msg_path = [src]\<rparr>]\<rparr>)))
     (snd (runQueue pid now {} []
             (s\<lparr>messageQueue := messageQueue s @
                  [\<lparr>msg_id = pid, msg_from = None, msg_to = src, msg_signal = signal,
                    msg_metadata = metadata, msg_timestamp = now,
                    msg_path = [src]\<rparr>]\<rparr>)))"
  by (simp add: propagate_def Let_def split: prod.split sum.split)

lemma signalsNonneg_propagate:
  assumes "signalsNonneg s" "0 \<le> signal"
  shows "signalsNonneg (snd (propagate src signal metadata pid now s))"
proof -
  let ?s0 = "s\<lparr>messageQueue := messageQueue s @
                  [\<lparr>msg_id = pid, msg_from = None, msg_to = src, msg_signal = signal,
                    msg_metadata = metadata, msg_timestamp = now,
                    msg_path = [src]\<rparr>]\<rparr>"
  have "signalsNonneg ?s0" using assms by (simp add: signalsNonneg_def)
  then have "signalsNonneg (snd (runQueue pid now {} [] ?s0))" by (rule signalsNonneg_runQueue)
  then show ?thesis by (simp add: snd_propagate signalsNonneg_learnPattern)
qed

lemma signalsNonneg_broadcastMembers:
  "signalsNonneg s \<Longrightarrow> 0 \<le> signal \<Longrightarrow>
   signalsNonneg (snd (broadcastMembers members signal metadata pids k now results s))"
proof (induction members arbitrary: k results s)
  case Nil
  then show ?case by simp
next
  case (Cons nodeId rest)
  obtain r s' where p: "propagate nodeId signal metadata (pids k) now s = (r, s')"
    by (cases "propagate nodeId signal metadata (pids k) now s")
  have s': "signalsNonneg s'"
    using signalsNonneg_propagate [OF Cons.prems, of nodeId metadata "pids k" now] p by simp
  show ?case
  proof (cases r)
    case (Inl e)
    then show ?thesis using p s' by simp
  next
    case (Inr res)
    then show ?thesis using p Cons.IH [OF s' Cons.prems(2)] by simp
  qed
qed

lemma signalsNonneg_broadcast:
  "signalsNonneg s \<Longrightarrow> 0 \<le> signal \<Longrightarrow>
   signalsNonneg (snd (broadcast grp signal metadata pids now s))"
  by (simp add: broadcast_def signalsNonneg_broadcastMembers split: option.split)

lemma addToGroup_fields [simp]:
  "edges (addToGroup ident grp s) = edges s"
  "messageQueue (addToGroup ident grp s) = messageQueue s"
  "pendingTimers (addToGroup ident grp s) = pendingTimers s"
  by (simp_all add: addToGroup_def)

lemma fold_addToGroup_fields [simp]:
  "edges (fold (addToGroup ident) groups s) = edges s"
  "messageQueue (fold (addToGroup ident) groups s) = messageQueue s"
  "pendingTimers (fold (addToGroup ident) groups s) = pendingTimers s"
  by (induction groups arbitrary: s; simp)+

lemma registerNode_fields [simp]:
  "edges (registerNode ident config s) = edges s"
  "messageQueue (registerNode ident config s) = messageQueue s"
  "pendingTimers (registerNode ident config s) = pendingTimers s"
  by (simp_all add: registerNode_def Let_def split: option.split)

lemma signalsNonneg_registerNode: "signalsNonneg s \<Longrightarrow> signalsNonneg (registerNode ident config s)"
  by (auto simp: signalsNonneg_def activationOf_registerNode split: if_splits)

lemma signalsNonneg_registerCausalEdge:
  assumes "signalsNonneg s" "nonnegCall (RegisterCausalEdge ident config)"
  shows "signalsNonneg (registerCausalEdge ident config s)"
proof -
  let ?e = "\<lparr>edge_id = ident, edge_from = ecfg_from config, edge_to = ecfg_to config,
           strength = (case ecfg_strength config of None \<Rightarrow> 1 | Some w \<Rightarrow> if w = 0 then 1 else w),
           delay = orElse (ecfg_delay config) 0,
           edge_conditions = ecfg_conditions config,
           transform = ecfg_transform config,
           bidirectional = orElse (ecfg_bidirectional config) False,
           edge_metadata = orElse (ecfg_metadata config) []\<rparr>"
  have e: "edgeNonneg ?e"
    using assms(2) by (auto simp: edgeNonneg_def split: option.splits)
  have "\<forall>x \<in> set (AList.update ident ?e (edges s)). edgeNonneg (snd x)"
    using set_update_subset [of ident ?e "edges s"] e assms(1)
    by (auto simp: signalsNonneg_def)
  then show ?thesis
    using assms(1) by (simp add: signalsNonneg_def registerCausalEdge_def activationOf_def)
qed

lemma signalsNonneg_timerFires: "signalsNonneg s \<Longrightarrow> signalsNonneg (timerFires i now s)"
  by (auto simp: signalsNonneg_def timerFires_def activationOf_def dest: in_set_takeD in_set_dropD)

lemma signalsNonneg_perform: "signalsNonneg s \<Longrightarrow> nonnegCall c \<Longrightarrow> signalsNonneg (perform c s)"
  by (cases c)
     (simp_all add: signalsNonneg_registerNode signalsNonneg_registerCausalEdge
        signalsNonneg_propagate signalsNonneg_broadcast signalsNonneg_timerFires)

lemma signalsNonneg_performAll:
  "signalsNonneg s \<Longrightarrow> list_all nonnegCall cs \<Longrightarrow> signalsNonneg (performAll cs s)"
  unfolding performAll_def
  by (induction cs arbitrary: s) (simp_all add: signalsNonneg_perform)

lemma scheduleEdge_observer [simp]:
  "observedPatterns (scheduleEdge pid m e s) = observedPatterns s"
  "proposedEdges (scheduleEdge pid m e s) = proposedEdges s"
  by (simp_all add: scheduleEdge_def Let_def)

lemma fold_scheduleEdge_observer [simp]:
  "observedPatterns (fold (scheduleEdge pid m) es s) = observedPatterns s"
  "proposedEdges (fold (scheduleEdge pid m) es s) = proposedEdges s"
  by (induction es arbitrary: s; simp)+

lemma activationOf_learnPattern [simp]: "activationOf (learnPattern src rs s) = activationOf s"
  by (rule ext) (simp add: activationOf_def)

lemma visitMessage_resultView:
  "map_option (\<lambda>r. (res_nodeId r, res_activation r)) (fst (visitMessage pid now m s)) =
   map_option (\<lambda>a. (msg_to m, min 1 (a + msg_signal m))) (activationOf s (msg_to m))"
proof (cases "map_of (nodes s) (msg_to m)")
  case None
  then show ?thesis by (simp add: visitMessage_def activateNode_def activationOf_def)
next
  case (Some n)
  obtain n' rs where h: "runHandlers (handlers n) (msg_signal m) (msg_metadata m)
      (n\<lparr>activation := min 1 (activation n + msg_signal m), lastFired := Some now\<rparr>) [] = (n', rs)"
    by (cases "runHandlers (handlers n) (msg_signal m) (msg_metadata m)
      (n\<lparr>activation := min 1 (activation n + msg_signal m), lastFired := Some now\<rparr>) []")
  have "activation n' = min 1 (activation n + msg_signal m)"
    using runHandlers_activation [of "handlers n" "msg_signal m" "msg_metadata m"
        "n\<lparr>activation := min 1 (activation n + msg_signal m), lastFired := Some now\<rparr>" "[]"] h
    by simp
  then show ?thesis
    using Some h by (simp add: visitMessage_def activateNode_def activationOf_def)
qed

lemma activationOf_visitMessage_fun:
  "activationOf (snd (visitMessage pid now m s)) =
     (case activationOf s (msg_to m) of
        None \<Rightarrow> activationOf s
      | Some a \<Rightarrow> (activationOf s)(msg_to m \<mapsto> min 1 (a + msg_signal m)))"
  by (rule ext) (auto simp: activationOf_visitMessage split: option.split)

lemma visitKey_mem: "t @ ''_'' @ pid \<in> (\<lambda>u. u @ ''_'' @ pid) ` V \<longleftrightarrow> t \<in> V"
  by auto

lemma visitKey_insert:
  "insert (t @ ''_'' @ pid) ((\<lambda>u. u @ ''_'' @ pid) ` V) = (\<lambda>u. u @ ''_'' @ pid) ` insert t V"
  by auto

lemma runQueue_visitTrace:
  "resultView (fst (runQueue pid now ((\<lambda>u. u @ ''_'' @ pid) ` V) R s)) =
     fst (visitTrace (queueView s) V (activationOf s) (resultView R)) \<and>
   activationOf (snd (runQueue pid now ((\<lambda>u. u @ ''_'' @ pid) ` V) R s)) =
     snd (visitTrace (queueView s) V (activationOf s) (resultView R))"
proof (induction n \<equiv> "length (messageQueue s)" arbitrary: V R s)
  case 0
  then have q: "messageQueue s = []" by simp
  then show ?case
    by (simp add: runQueue.simps [of pid now _ R s] queueView_def)
next
  case (Suc n)
  then obtain m rest where q: "messageQueue s = m # rest" and n: "n = length rest"
    by (cases "messageQueue s") auto
  let ?s = "s\<lparr>messageQueue := rest\<rparr>"
  have qv: "queueView s = (msg_to m, msg_signal m) # queueView ?s"
    using q by (simp add: queueView_def)
  show ?case
  proof (cases "msg_to m \<in> V")
    case True
    have eq: "runQueue pid now ((\<lambda>u. u @ ''_'' @ pid) ` V) R s =
        runQueue pid now ((\<lambda>u. u @ ''_'' @ pid) ` V) R ?s"
      using q True visitKey_mem [of "msg_to m" pid V]
      by (simp add: runQueue.simps [of pid now _ R s])
    show ?thesis
      unfolding eq using Suc.hyps(1) [of ?s V R] n True by (simp add: qv)
  next
    case False
    let ?v = "visitMessage pid now m ?s"
    have eq: "runQueue pid now ((\<lambda>u. u @ ''_'' @ pid) ` V) R s =
        runQueue pid now ((\<lambda>u. u @ ''_'' @ pid) ` insert (msg_to m) V) (R @ [fst ?v]) (snd ?v)"
      using q False visitKey_mem [of "msg_to m" pid V] visitKey_insert [of "msg_to m" pid V]
      by (simp add: runQueue.simps [of pid now _ R s] split: prod.split)
    have len: "n = length (messageQueue (snd ?v))" using n by simp
    have qv': "queueView (snd ?v) = queueView ?s" by (simp add: queueView_def)
    have rv: "resultView (R @ [fst ?v]) =
        resultView R @ [map_option (\<lambda>a. (msg_to m, min 1 (a + msg_signal m))) (activationOf s (msg_to m))]"
      using visitMessage_resultView [of pid now m ?s] by (simp add: resultView_def)
    show ?thesis
      unfolding eq using Suc.hyps(1) [OF len, of "insert (msg_to m) V" "R @ [fst ?v]"] False
      by (simp add: qv qv' rv activationOf_visitMessage_fun split: option.split)
  qed
qed

lemma nodeIds_resultView:
  "resultView rs = resultView rs' \<Longrightarrow> map_sum error_name id (nodeIds rs) = map_sum error_name id (nodeIds rs')"
proof (induction rs arbitrary: rs')
  case Nil
  then show ?case by (simp add: resultView_def)
next
  case (Cons r rs)
  then obtain r' rs'' where c: "rs' = r' # rs''" by (cases rs') (auto simp: resultView_def)
  have t: "resultView rs = resultView rs''" using Cons.prems c by (simp add: resultView_def)
  have h: "map_option (\<lambda>r. (res_nodeId r, res_activation r)) r = map_option (\<lambda>r. (res_nodeId r, res_activation r)) r'"
    using Cons.prems c by (simp add: resultView_def)
  show ?case
  proof (cases r)
    case None
    then have "r' = None" using h by simp
    then show ?thesis using None c by (simp add: TypeError_def)
  next
    case (Some x)
    then obtain x' where x': "r' = Some x'" "res_nodeId x' = res_nodeId x" using h by (cases r') auto
    show ?thesis
      using Cons.IH [OF t] Some x' c
      by (cases "nodeIds rs"; cases "nodeIds rs''") auto
  qed
qed

lemma fst_propagate:
  "map_sum error_name activatedNodes (fst (propagate src signal metadata pid now s)) =
   map_sum error_name id (nodeIds (fst (runQueue pid now {} []
             (s\<lparr>messageQueue := messageQueue s @
                  [\<lparr>msg_id = pid, msg_from = None, msg_to = src, msg_signal = signal,
                    msg_metadata = metadata, msg_timestamp = now,
                    msg_path = [src]\<rparr>]\<rparr>))))"
  by (simp add: propagate_def Let_def split: prod.split sum.split)

lemma somes_append [simp]: "somes (xs @ ys) = somes xs @ somes ys"
  by (induction xs rule: somes.induct) simp_all

lemma someIds_simps [simp]:
  "someIds [] = []"
  "someIds (R @ [None]) = someIds R"
  "someIds (R @ [Some x]) = someIds R @ [fst x]"
  by (simp_all add: someIds_def)

lemma visitTrace_distinct:
  "distinct (someIds R) \<Longrightarrow> set (someIds R) \<subseteq> V \<Longrightarrow>
   distinct (someIds (fst (visitTrace q V acts R)))"
proof (induction q arbitrary: V acts R)
  case Nil
  then show ?case by simp
next
  case (Cons x q)
  obtain t signal where x: "x = (t, signal)" by (cases x)
  show ?case
  proof (cases "t \<in> V")
    case True
    then show ?thesis using Cons x by simp
  next
    case False
    show ?thesis
    proof (cases "acts t")
      case None
      have "distinct (someIds (fst (visitTrace q (insert t V) acts (R @ [None]))))"
        using Cons.prems by (intro Cons.IH) auto
      then show ?thesis using x False None by simp
    next
      case (Some a)
      have "distinct (someIds (fst (visitTrace q (insert t V) (acts(t \<mapsto> min 1 (a + signal)))
               (R @ [Some (t, min 1 (a + signal))]))))"
        using Cons.prems False by (intro Cons.IH) auto
      then show ?thesis using x False Some by simp
    qed
  qed
qed

lemma someIds_resultView: "someIds (resultView rs) = map res_nodeId (somes rs)"
  by (induction rs rule: somes.induct) (simp_all add: someIds_def resultView_def)

lemma runQueue_distinct:
  "distinct (map res_nodeId (somes (fst (runQueue pid now {} [] s))))"
proof -
  have "resultView (fst (runQueue pid now {} [] s)) = fst (visitTrace (queueView s) {} (activationOf s) [])"
    using runQueue_visitTrace [of pid now "{}" "[]" s] by (simp add: resultView_def)
  moreover have "distinct (someIds (fst (visitTrace (queueView s) {} (activationOf s) [])))"
    by (rule visitTrace_distinct) simp_all
  ultimately show ?thesis by (simp flip: someIds_resultView)
qed

lemma activateNode_observer [simp]:
  "observedPatterns (snd (activateNode t signal metadata now s)) = observedPatterns s"
  "proposedEdges (snd (activateNode t signal metadata now s)) = proposedEdges s"
  by (simp_all add: activateNode_def split: option.split prod.split)

lemma visitMessage_observer [simp]:
  "observedPatterns (snd (visitMessage pid now m s)) = observedPatterns s"
  "proposedEdges (snd (visitMessage pid now m s)) = proposedEdges s"
proof -
  obtain r s' where a: "activateNode (msg_to m) (msg_signal m) (msg_metadata m) now s = (r, s')"
    by (cases "activateNode (msg_to m) (msg_signal m) (msg_metadata m) now s")
  have "observedPatterns s' = observedPatterns s" "proposedEdges s' = proposedEdges s"
    using activateNode_observer [of "msg_to m" "msg_signal m" "msg_metadata m" now s] a by simp_all
  then show "observedPatterns (snd (visitMessage pid now m s)) = observedPatterns s"
    "proposedEdges (snd (visitMessage pid now m s)) = proposedEdges s"
    by (simp_all add: visitMessage_def a)
qed







lemma registerNode_observer [simp]:
  "observedPatterns (registerNode ident config s) = observedPatterns s"
  "proposedEdges (registerNode ident config s) = proposedEdges s"
proof -
  have g: "\<And>gs s. observedPatterns (fold (addToGroup ident) gs s) = observedPatterns s \<and>
      proposedEdges (fold (addToGroup ident) gs s) = proposedEdges s"
    subgoal for gs s by (induction gs arbitrary: s) (simp_all add: addToGroup_def)
    done
  show "observedPatterns (registerNode ident config s) = observedPatterns s"
    "proposedEdges (registerNode ident config s) = proposedEdges s"
    by (simp_all add: registerNode_def Let_def g split: option.split)
qed



lemma nodeIds_somes: "nodeIds rs = Inr ids \<Longrightarrow> ids = map res_nodeId (somes rs)"
proof (induction rs arbitrary: ids)
  case Nil
  then show ?case by simp
next
  case (Cons r rs)
  show ?case
  proof (cases r)
    case None
    then show ?thesis using Cons.prems by simp
  next
    case (Some x)
    then show ?thesis using Cons by (cases "nodeIds rs") auto
  qed
qed

text \<open>A run that returns has visited no node twice.\<close>

lemma propagate_visits_once:
  assumes "fst (propagate src signal metadata pid now s) = Inr r"
  shows "distinct (activatedNodes r)"
proof -
  let ?s0 = "s\<lparr>messageQueue := messageQueue s @
                  [\<lparr>msg_id = pid, msg_from = None, msg_to = src, msg_signal = signal,
                    msg_metadata = metadata, msg_timestamp = now,
                    msg_path = [src]\<rparr>]\<rparr>"
  have "nodeIds (fst (runQueue pid now {} [] ?s0)) = Inr (activatedNodes r)"
    using assms by (auto simp: propagate_def Let_def split: prod.splits sum.splits)
  then have "activatedNodes r = map res_nodeId (somes (fst (runQueue pid now {} [] ?s0)))"
    by (rule nodeIds_somes)
  then show ?thesis using runQueue_distinct [of pid now ?s0] by simp
qed

subsection \<open>Observations and proposals\<close>

text \<open>
  The average is the one of the doubles: of the activations 0.05 and five times 0.35
  the exact mean is 0.3, which is not above the threshold, and the average that the code
  computes is a double above the double 0.3.
\<close>

lemma avgStrengthOf_rounded:
  "fl 0.3 < avgStrengthOf [0.05, 0.35, 0.35, 0.35, 0.35, 0.35] \<and>
   \<not> 0.3 < sum_list [0.05, 0.35, 0.35, 0.35, 0.35, 0.35] / (6::real)"
  by code_simp

text \<open>
  A run leaves the registered ids and the edges as they are; it only appends to the
  proposals, and what it appends are proposals of its source.
\<close>

lemma keys_activateNode:
  "map fst (nodes (snd (activateNode t signal metadata now s))) = map fst (nodes s)"
proof (cases "map_of (nodes s) t")
  case None
  then show ?thesis by (simp add: activateNode_def)
next
  case (Some n)
  then have "t \<in> set (map fst (nodes s))" by (metis map_of_eq_None_iff option.distinct(1) set_map)
  then show ?thesis
    using Some by (simp add: activateNode_def update_keys split: prod.split)
qed

lemma keys_visitMessage:
  "map fst (nodes (snd (visitMessage pid now m s))) = map fst (nodes s)"
proof -
  obtain r s' where a: "activateNode (msg_to m) (msg_signal m) (msg_metadata m) now s = (r, s')"
    by (cases "activateNode (msg_to m) (msg_signal m) (msg_metadata m) now s")
  then show ?thesis
    using keys_activateNode [of "msg_to m" "msg_signal m" "msg_metadata m" now s]
    by (simp add: visitMessage_def)
qed

lemma keys_runQueue:
  "map fst (nodes (snd (runQueue pid now visited results s))) = map fst (nodes s)"
proof -
  have "\<exists>V::string set. map fst (nodes (snd (runQueue pid now visited results s))) = map fst (nodes s)"
    by (rule runQueue_rule [where I = "\<lambda>V R s'. map fst (nodes s') = map fst (nodes s)"])
       (simp_all add: keys_visitMessage)
  then show ?thesis by simp
qed

lemma keys_propagate:
  "map fst (nodes (snd (propagate src signal metadata pid now s))) = map fst (nodes s)"
  by (simp add: snd_propagate keys_runQueue)







lemma edges_runQueue: "edges (snd (runQueue pid now visited results s)) = edges s"
proof -
  have "\<exists>V::string set. edges (snd (runQueue pid now visited results s)) = edges s"
    by (rule runQueue_rule [where I = "\<lambda>V R s'. edges s' = edges s"]) simp_all
  then show ?thesis by simp
qed


subsection \<open>The claims\<close>

text \<open>
  C1. Scenario: nodes A, B, C, edges A\<rightarrow>B (0.8) and B\<rightarrow>C (0.5), one call
  \<open>propagate('A', 1.0, {})\<close>. The claim expects the activations 1.0, 0.8, 0.4 and the
  visitation order [A, B, C]. The code activates A only: the message for B is handed to
  \<open>setTimeout\<close>, the queue is empty when the loop tests it again, and the call
  returns with B and C at 0. When the timer fires later, the message waits in the queue
  for the next call; B and C stay at 0.
\<close>

theorem chain_run_activates_source_only:
  "map_sum error_name activatedNodes (fst (propagate ''A'' 1 [] pid now chainGraph)) = Inr [''A''] \<and>
   map (activationOf (snd (propagate ''A'' 1 [] pid now chainGraph))) [''A'', ''B'', ''C'']
     = [Some 1, Some 0, Some 0] \<and>
   messageQueue (snd (propagate ''A'' 1 [] pid now chainGraph)) = [] \<and>
   map (\<lambda>(d, m). (d, msg_to m, msg_signal m))
       (pendingTimers (snd (propagate ''A'' 1 [] pid now chainGraph))) = [(0, ''B'', 0.8)] \<and>
   map (activationOf (timerFires 0 later (snd (propagate ''A'' 1 [] pid now chainGraph))))
       [''A'', ''B'', ''C''] = [Some 1, Some 0, Some 0]"
  by (simp add: chainGraph_def chainCalls_def substrate_defs)

text \<open>
  C2. Scenario: nodes A, B, edges A\<rightarrow>B and B\<rightarrow>A of weight 1, one call
  \<open>propagate('A', 1.0, {})\<close>. The claim expects A and B visited exactly once each. The
  call terminates (\<open>runQueue\<close> is total, on every graph) and visits no node twice
  (\<open>propagate_visits_once\<close>), but it visits A only; B is not visited at all.
\<close>

theorem cycle_run_activates_source_only:
  "map_sum error_name activatedNodes (fst (propagate ''A'' 1 [] pid now cycleGraph)) = Inr [''A''] \<and>
   map (activationOf (snd (propagate ''A'' 1 [] pid now cycleGraph))) [''A'', ''B'']
     = [Some 1, Some 0] \<and>
   map (\<lambda>(d, m). (d, msg_to m, msg_signal m))
       (pendingTimers (snd (propagate ''A'' 1 [] pid now cycleGraph))) = [(0, ''B'', 1)]"
  by (simp add: cycleGraph_def substrate_defs)

text \<open>
  C3. The claim: every activation is in [0, 1] after any sequence of calls. It fails for
  a negative signal: only the upper bound is enforced (\<open>Math.min(1.0, ...)\<close>).
\<close>

theorem activation_negative_counterexample:
  "activationOf (performAll [RegisterNode ''A'' plainNode, Propagate ''A'' (- 1) [] ''p'' 0]
      newSubstrate) ''A'' = Some (- 1)"
  by (simp add: substrate_defs)

text \<open>
  C3, as amended: after any sequence of calls (and timer callbacks) on a new substrate,
  every activation is at most 1; it is at least 0 as well when no call passes a negative
  signal or registers an edge with a negative strength or a transform that can turn a
  non-negative signal negative.
\<close>

theorem activation_bounds:
  "(\<forall>ident a. activationOf (performAll cs newSubstrate) ident = Some a \<longrightarrow> a \<le> 1) \<and>
   (list_all nonnegCall cs \<longrightarrow>
      (\<forall>ident a. activationOf (performAll cs newSubstrate) ident = Some a \<longrightarrow> 0 \<le> a))"
proof -
  have "atMostOne newSubstrate" by (simp add: atMostOne_def activationOf_def newSubstrate_def)
  then have "atMostOne (performAll cs newSubstrate)" by (rule atMostOne_performAll)
  moreover have "signalsNonneg newSubstrate"
    by (simp add: signalsNonneg_def activationOf_def newSubstrate_def)
  then have "list_all nonnegCall cs \<Longrightarrow> signalsNonneg (performAll cs newSubstrate)"
    by (rule signalsNonneg_performAll)
  ultimately show ?thesis by (auto simp: atMostOne_def signalsNonneg_def)
qed

theorem activation_bounds_witness:
  "list_all nonnegCall (chainCalls @ [Propagate ''A'' 1 [] ''p'' 0]) \<and>
   (\<exists>a. activationOf (performAll (chainCalls @ [Propagate ''A'' 1 [] ''p'' 0]) newSubstrate) ''A''
          = Some a \<and> 0 \<le> a \<and> a \<le> 1)"
proof -
  have n: "list_all nonnegCall (chainCalls @ [Propagate ''A'' 1 [] ''p'' 0])"
    by (simp add: chainCalls_def weighted_def)
  have a: "activationOf (performAll (chainCalls @ [Propagate ''A'' 1 [] ''p'' 0]) newSubstrate) ''A''
      = Some 1"
    by (simp add: chainCalls_def substrate_defs)
  show ?thesis
    using activation_bounds [of "chainCalls @ [Propagate ''A'' 1 [] ''p'' 0]"] n a by simp
qed

text \<open>
  C5. The claim: registering an id that is already registered fails with
  DuplicateNodeError and leaves the node as it was. The code has no such check:
  registering A again replaces the node, here one whose activation had reached 1.
\<close>

theorem registerNode_duplicate_counterexample:
  "activationOf (snd (propagate ''A'' 1 [] ''p'' 0 (registerNode ''A'' plainNode newSubstrate))) ''A''
     = Some 1 \<and>
   activationOf (registerNode ''A'' plainNode
      (snd (propagate ''A'' 1 [] ''p'' 0 (registerNode ''A'' plainNode newSubstrate)))) ''A''
     = Some 0"
  by (simp add: substrate_defs)

text \<open>
  C5, as amended: \<open>registerNode\<close> never fails. Whether or not the id was registered,
  the node stored under it afterwards is a new one with activation 0 that has never
  fired, and every other node is as before.
\<close>

theorem registerNode_stores_fresh_node:
  "(\<exists>n. map_of (nodes (registerNode ident config s)) ident = Some n \<and>
        node_id n = ident \<and> activation n = 0 \<and> lastFired n = None) \<and>
   (\<forall>other. other \<noteq> ident \<longrightarrow>
        map_of (nodes (registerNode ident config s)) other = map_of (nodes s) other)"
  by (simp add: registerNode_def Let_def update_conv' split: option.split)

theorem registerNode_stores_fresh_node_witness:
  "(\<exists>n. map_of (nodes (registerNode ''B'' plainNode (registerNode ''A'' plainNode newSubstrate))) ''B''
        = Some n \<and> node_id n = ''B'' \<and> activation n = 0 \<and> lastFired n = None) \<and>
   ''A'' \<noteq> ''B'' \<and>
   map_of (nodes (registerNode ''B'' plainNode (registerNode ''A'' plainNode newSubstrate))) ''A''
     = map_of (nodes (registerNode ''A'' plainNode newSubstrate)) ''A''"
  using registerNode_stores_fresh_node [of "''B''" plainNode "registerNode ''A'' plainNode newSubstrate"]
  by simp

text \<open>
  C7. The claim: \<open>propagate\<close> on an id that is not registered fails with
  NodeNotFoundError. The code has no such validation and no such error: the call is
  rejected, but by the \<open>TypeError\<close> of reading \<open>nodeId\<close> of the null result when
  the return value is built.
\<close>

theorem propagate_unknown_source_counterexample:
  "map_sum error_name activatedNodes (fst (propagate ''Z'' 1 [] ''p'' 0 chainGraph)) = Inl ''TypeError''"
  by (simp add: chainGraph_def chainCalls_def substrate_defs)

text \<open>
  C7, as amended: for an id that is not registered, \<open>_activateNode\<close> answers the
  lookup failure with null and leaves the state as it is, and the call registers
  nothing: the registered ids are the same after it and the id is still not among them.
  When no message is waiting in the queue, the loop collects that one null result and
  the call changes no node, no observation and no proposal.
\<close>

theorem propagate_unknown_source:
  assumes "map_of (nodes s) src = None"
  shows "activateNode src signal metadata now s = (None, s) \<and>
         map fst (nodes (snd (propagate src signal metadata pid now s))) = map fst (nodes s) \<and>
         map_of (nodes (snd (propagate src signal metadata pid now s))) src = None \<and>
         (messageQueue s = [] \<longrightarrow>
            fst (runQueue pid now {} []
                  (s\<lparr>messageQueue :=
                       [\<lparr>msg_id = pid, msg_from = None, msg_to = src, msg_signal = signal,
                         msg_metadata = metadata, msg_timestamp = now, msg_path = [src]\<rparr>]\<rparr>))
              = [None] \<and>
            nodes (snd (propagate src signal metadata pid now s)) = nodes s \<and>
            observedPatterns (snd (propagate src signal metadata pid now s)) = observedPatterns s \<and>
            proposedEdges (snd (propagate src signal metadata pid now s)) = proposedEdges s)"
proof -
  have 1: "activateNode src signal metadata now s = (None, s)"
    using assms by (simp add: activateNode_def)
  have 2: "map fst (nodes (snd (propagate src signal metadata pid now s))) = map fst (nodes s)"
    by (rule keys_propagate)
  have "src \<notin> set (map fst (nodes s))" using assms by (simp add: map_of_eq_None_iff)
  then have "src \<notin> set (map fst (nodes (snd (propagate src signal metadata pid now s))))"
    using 2 by simp
  then have 3: "map_of (nodes (snd (propagate src signal metadata pid now s))) src = None"
    by (simp add: map_of_eq_None_iff)
  have 4: "fst (runQueue pid now {} []
                  (s\<lparr>messageQueue :=
                       [\<lparr>msg_id = pid, msg_from = None, msg_to = src, msg_signal = signal,
                         msg_metadata = metadata, msg_timestamp = now, msg_path = [src]\<rparr>]\<rparr>))
              = [None] \<and>
            nodes (snd (propagate src signal metadata pid now s)) = nodes s \<and>
            observedPatterns (snd (propagate src signal metadata pid now s)) = observedPatterns s \<and>
            proposedEdges (snd (propagate src signal metadata pid now s)) = proposedEdges s"
    if "messageQueue s = []"
    using assms that
    by (simp add: propagate_def runQueue.simps visitMessage_def activateNode_def learnPattern_def
        learnStep_def TypeError_def Let_def)
  show ?thesis using 1 2 3 4 by blast
qed

theorem propagate_unknown_source_witness:
  "map_of (nodes chainGraph) ''Z'' = None \<and>
   activateNode ''Z'' 1 [] 0 chainGraph = (None, chainGraph) \<and>
   map fst (nodes (snd (propagate ''Z'' 1 [] ''p'' 0 chainGraph))) = [''A'', ''B'', ''C''] \<and>
   map_of (nodes (snd (propagate ''Z'' 1 [] ''p'' 0 chainGraph))) ''Z'' = None \<and>
   messageQueue chainGraph = [] \<and>
   nodes (snd (propagate ''Z'' 1 [] ''p'' 0 chainGraph)) = nodes chainGraph \<and>
   observedPatterns (snd (propagate ''Z'' 1 [] ''p'' 0 chainGraph)) = observedPatterns chainGraph \<and>
   proposedEdges (snd (propagate ''Z'' 1 [] ''p'' 0 chainGraph)) = proposedEdges chainGraph"
proof -
  have h: "map_of (nodes chainGraph) ''Z'' = None"
    and q: "messageQueue chainGraph = []"
    and k: "map fst (nodes chainGraph) = [''A'', ''B'', ''C'']"
    by (simp_all add: chainGraph_def chainCalls_def substrate_defs)
  show ?thesis
    using propagate_unknown_source [OF h, of 1 "[]" 0 "''p''"] h q k by simp
qed

text \<open>
  With a message waiting, the call delivers it like any other call: after a run from A
  and its timer callback, a call for the unregistered Z raises B to 0.8 and observes the
  pattern from Z to B.
\<close>

lemma unknown_source_delivers_waiting_message:
  "map (activationOf (performAll
          [Propagate ''A'' 1 [] ''p1'' 0, TimerFires 0 0, Propagate ''Z'' 1 [] ''p2'' 0] chainGraph))
       [''A'', ''B'', ''C''] = [Some 1, Some 0.8, Some 0] \<and>
   map fst (observedPatterns (performAll
          [Propagate ''A'' 1 [] ''p1'' 0, TimerFires 0 0, Propagate ''Z'' 1 [] ''p2'' 0] chainGraph))
     = [''A'' @ arrow @ ''A'', ''Z'' @ arrow @ ''B'']"
  by code_simp

text \<open>
  C4. Two calls of \<open>propagate\<close> with the same arguments, each started in the same
  state \<open>s\<close>, visit the same nodes in the same order (or are both rejected with the
  same kind of error) and change every activation by the same amount, whatever random
  identifier and clock reading each call draws.
\<close>

theorem propagate_deterministic:
  "map_sum error_name activatedNodes (fst (propagate src signal metadata pid1 now1 s)) =
   map_sum error_name activatedNodes (fst (propagate src signal metadata pid2 now2 s)) \<and>
   activationDelta s (snd (propagate src signal metadata pid1 now1 s)) =
   activationDelta s (snd (propagate src signal metadata pid2 now2 s))"
proof -
  let ?s0 = "\<lambda>pid now. s\<lparr>messageQueue := messageQueue s @
                  [\<lparr>msg_id = pid, msg_from = None, msg_to = src, msg_signal = signal,
                    msg_metadata = metadata, msg_timestamp = now,
                    msg_path = [src]\<rparr>]\<rparr>"
  have v: "queueView (?s0 pid1 now1) = queueView (?s0 pid2 now2)"
    "activationOf (?s0 pid1 now1) = activationOf (?s0 pid2 now2)"
    by (simp_all add: queueView_def)
  have r: "resultView (fst (runQueue pid1 now1 {} [] (?s0 pid1 now1))) =
           resultView (fst (runQueue pid2 now2 {} [] (?s0 pid2 now2)))"
    using runQueue_visitTrace [of pid1 now1 "{}" "[]" "?s0 pid1 now1"]
      runQueue_visitTrace [of pid2 now2 "{}" "[]" "?s0 pid2 now2"] v by simp
  have a: "activationOf (snd (runQueue pid1 now1 {} [] (?s0 pid1 now1))) =
           activationOf (snd (runQueue pid2 now2 {} [] (?s0 pid2 now2)))"
    using runQueue_visitTrace [of pid1 now1 "{}" "[]" "?s0 pid1 now1"]
      runQueue_visitTrace [of pid2 now2 "{}" "[]" "?s0 pid2 now2"] v by simp
  have a': "activationOf (snd (propagate src signal metadata pid1 now1 s)) =
            activationOf (snd (propagate src signal metadata pid2 now2 s))"
    using a by (simp add: snd_propagate)
  have "map_sum error_name activatedNodes (fst (propagate src signal metadata pid1 now1 s)) =
   map_sum error_name activatedNodes (fst (propagate src signal metadata pid2 now2 s))"
    unfolding fst_propagate by (rule nodeIds_resultView [OF r])
  moreover have "activationDelta s (snd (propagate src signal metadata pid1 now1 s)) =
   activationDelta s (snd (propagate src signal metadata pid2 now2 s))"
    by (rule ext) (simp add: activationDelta_def a')
  ultimately show ?thesis by simp
qed




section \<open>Properties of the wave graph\<close>

named_theorems wave_defs

lemmas [wave_defs] = newWaveGraph_def waveRegisterNode_def registerResonanceEdge_def
  calculateFrequency_def getFieldHarmonic_def calculateHarmonicResonance_def ratios_def
  generateWave_def setFieldValue_def coupledAmplitude_def learnPair_def
  learnResonancePatterns_def updateWaveField_def groupMembers_def amplitudeOf_def
  resonanceEdgeExists_def orElse_def gateNode_def pairGraph_def excited_def within01_def
  pairNodes_def plainCoupling_def

lemma wave_nodes_setFieldValue [simp]: "wave_nodes (setFieldValue entry g) = wave_nodes g"
  by (simp add: setFieldValue_def)

lemma wave_nodes_fold_setFieldValue [simp]: "wave_nodes (fold setFieldValue es g) = wave_nodes g"
  by (induction es arbitrary: g) simp_all

lemma wave_nodes_learnPair [simp]: "wave_nodes (learnPair a b g) = wave_nodes g"
  by (simp add: learnPair_def Let_def)

lemma wave_nodes_fold_learnPair [simp]: "wave_nodes (fold (learnPair a) bs g) = wave_nodes g"
  by (induction bs arbitrary: g) simp_all

lemma wave_nodes_learnPairs [simp]: "wave_nodes (learnPairs ns g) = wave_nodes g"
  by (induction ns arbitrary: g) simp_all

lemma wave_nodes_learnResonancePatterns [simp]:
  "wave_nodes (learnResonancePatterns g) = wave_nodes g"
  by (simp add: learnResonancePatterns_def)

lemma coupledAmplitude_bounds:
  "min 1 a \<le> coupledAmplitude a t" "coupledAmplitude a t \<le> 1"
  "a \<le> 1 \<Longrightarrow> a \<le> coupledAmplitude a t" "coupledAmplitude a t \<le> a + 0.01 * \<bar>t\<bar>"
proof -
  define d where "d = \<bar>t\<bar> * 0.01"
  have d: "0 \<le> d" by (simp add: d_def)
  have c: "coupledAmplitude a t = min 1 (a + d)" by (simp add: coupledAmplitude_def d_def)
  have e: "a + 0.01 * \<bar>t\<bar> = a + d" by (simp add: d_def)
  show "min 1 a \<le> coupledAmplitude a t" unfolding c using d by linarith
  show "coupledAmplitude a t \<le> 1" unfolding c by linarith
  show "a \<le> 1 \<Longrightarrow> a \<le> coupledAmplitude a t" unfolding c using d by linarith
  show "coupledAmplitude a t \<le> a + 0.01 * \<bar>t\<bar>" unfolding c e by linarith
qed

text \<open>The amplitude of a node after the couplings lies between \<open>min 1 a\<close> and \<open>max 1 a\<close>.\<close>

lemma applyCouplings_amplitudeOf:
  "amplitudeOf g k = Some a \<Longrightarrow>
   \<exists>a'. amplitudeOf (snd (applyCouplings es g)) k = Some a' \<and> min 1 a \<le> a' \<and> a' \<le> max 1 a"
proof (induction es arbitrary: g a)
  case Nil
  then show ?case by simp
next
  case (Cons e es)
  show ?case
  proof (cases "map_of (wave_nodes g) (we_to e)")
    case None
    then show ?thesis using Cons.IH [OF Cons.prems] by simp
  next
    case (Some targetNode)
    define transferred where "transferred =
      orElse (map_of (fieldState g) (we_from e)) 0 * we_strength e * harmonicResonance e * cos (phaseShift e)"
    define b where "b = coupledAmplitude (amplitude targetNode) transferred"
    define g' where "g' = g\<lparr>wave_nodes := AList.update (we_to e) (targetNode\<lparr>amplitude := b\<rparr>) (wave_nodes g)\<rparr>"
    have "\<exists>c. amplitudeOf g' k = Some c \<and> min 1 a \<le> c \<and> c \<le> max 1 a"
    proof (cases "k = we_to e")
      case True
      then have "a = amplitude targetNode" using Cons.prems Some by (simp add: amplitudeOf_def)
      then show ?thesis
        using True coupledAmplitude_bounds(1,2) [of a transferred]
        by (auto simp: g'_def amplitudeOf_def update_conv' b_def max_def)
    next
      case False
      then show ?thesis using Cons.prems by (auto simp: g'_def amplitudeOf_def update_conv')
    qed
    then obtain c where c: "amplitudeOf g' k = Some c" "min 1 a \<le> c" "c \<le> max 1 a" by blast
    have stay: "\<exists>a'. amplitudeOf g' k = Some a' \<and> min 1 a \<le> a' \<and> a' \<le> max 1 a"
      using c by blast
    obtain d where d: "amplitudeOf (snd (applyCouplings es g')) k = Some d" "min 1 c \<le> d" "d \<le> max 1 c"
      using Cons.IH [OF c(1)] by blast
    have go: "\<exists>a'. amplitudeOf (snd (applyCouplings es g')) k = Some a' \<and> min 1 a \<le> a' \<and> a' \<le> max 1 a"
      using d c by (intro exI [of _ d]) (auto simp: min_def max_def split: if_splits)
    show ?thesis
      using Some stay go
      by (simp add: Let_def transferred_def [symmetric] b_def [symmetric] g'_def [symmetric]
          split: option.split)
  qed
qed

lemma applyCouplings_within01:
  "list_all within01 (map snd (wave_nodes g)) \<Longrightarrow>
   list_all within01 (map snd (wave_nodes (snd (applyCouplings es g))))"
proof (induction es arbitrary: g)
  case Nil
  then show ?case by simp
next
  case (Cons e es)
  show ?case
  proof (cases "map_of (wave_nodes g) (we_to e)")
    case None
    then show ?thesis using Cons.IH [OF Cons.prems] by simp
  next
    case (Some targetNode)
    define transferred where "transferred =
      orElse (map_of (fieldState g) (we_from e)) 0 * we_strength e * harmonicResonance e * cos (phaseShift e)"
    define b where "b = coupledAmplitude (amplitude targetNode) transferred"
    define g' where "g' = g\<lparr>wave_nodes := AList.update (we_to e) (targetNode\<lparr>amplitude := b\<rparr>) (wave_nodes g)\<rparr>"
    have "(we_to e, targetNode) \<in> set (wave_nodes g)" using Some by (rule map_of_SomeD)
    then have t: "within01 targetNode" using Cons.prems by (auto simp: list_all_iff)
    then have "within01 (targetNode\<lparr>amplitude := b\<rparr>)"
      using coupledAmplitude_bounds(2,3) [of "amplitude targetNode" transferred]
      by (simp add: within01_def b_def)
    then have stay: "list_all within01 (map snd (wave_nodes g'))"
      using Cons.prems set_update_subset [of "we_to e" "targetNode\<lparr>amplitude := b\<rparr>" "wave_nodes g"]
      by (auto simp: list_all_iff g'_def)
    have go: "list_all within01 (map snd (wave_nodes (snd (applyCouplings es g'))))"
      using Cons.IH [OF stay] .
    show ?thesis
      using Some stay go
      by (simp add: Let_def transferred_def [symmetric] b_def [symmetric] g'_def [symmetric]
          split: option.split)
  qed
qed

lemma wave_nodes_updateWaveField:
  "wave_nodes (snd (updateWaveField step g)) =
   wave_nodes (snd (applyCouplings
      (map snd (wave_edges (fold setFieldValue (wave_nodes g) (g\<lparr>time := real step / sampleRate g\<rparr>))))
      (fold setFieldValue (wave_nodes g) (g\<lparr>time := real step / sampleRate g\<rparr>))))"
  by (simp add: updateWaveField_def Let_def split: prod.split option.split)

text \<open>
  C10. The claim: a timestep never lowers the amplitude of a coupling target. It does
  when the amplitude is above 1, which \<open>propagate\<close> and \<open>broadcast\<close> store without
  a check: after the group was excited with amplitude 2, the timestep cuts the target
  n2 to 1.
\<close>

theorem updateWaveField_lowers_counterexample:
  "amplitudeOf (excited 2) ''n2'' = Some 2 \<and>
   amplitudeOf (snd (updateWaveField 0 (excited 2))) ''n2'' = Some 1"
  by (simp add: wave_defs update_conv')

text \<open>
  C10, as amended: a timestep does not lower the amplitude of a node whose amplitude is
  at most 1; when the amplitudes of all nodes are in [0, 1] before the timestep they are
  in [0, 1] after it; and one coupling into a target with amplitude at most 1 adds
  between 0 and 0.01 times the transferred magnitude.
\<close>

theorem updateWaveField_amplitudes:
  "(amplitudeOf g k = Some a \<and> a \<le> 1 \<longrightarrow>
      (\<exists>a'. amplitudeOf (snd (updateWaveField step g)) k = Some a' \<and> a \<le> a')) \<and>
   (list_all within01 (map snd (wave_nodes g)) \<longrightarrow>
      list_all within01 (map snd (wave_nodes (snd (updateWaveField step g))))) \<and>
   (b \<le> 1 \<longrightarrow> b \<le> coupledAmplitude b transferred \<and>
      coupledAmplitude b transferred \<le> b + 0.01 * \<bar>transferred\<bar>)"
proof -
  let ?g2 = "fold setFieldValue (wave_nodes g) (g\<lparr>time := real step / sampleRate g\<rparr>)"
  have n: "wave_nodes ?g2 = wave_nodes g" by simp
  have 1: "\<exists>a'. amplitudeOf (snd (updateWaveField step g)) k = Some a' \<and> a \<le> a'"
    if "amplitudeOf g k = Some a" "a \<le> 1"
  proof -
    have "amplitudeOf ?g2 k = Some a" using that(1) n by (simp add: amplitudeOf_def)
    then obtain a' where "amplitudeOf (snd (applyCouplings (map snd (wave_edges ?g2)) ?g2)) k = Some a'"
      "min 1 a \<le> a'"
      using applyCouplings_amplitudeOf by blast
    then show ?thesis
      using that(2) by (auto simp: amplitudeOf_def wave_nodes_updateWaveField)
  qed
  have 2: "list_all within01 (map snd (wave_nodes (snd (updateWaveField step g))))"
    if "list_all within01 (map snd (wave_nodes g))"
  proof -
    have "list_all within01 (map snd (wave_nodes ?g2))" using that n by simp
    then show ?thesis
      unfolding wave_nodes_updateWaveField by (rule applyCouplings_within01)
  qed
  show ?thesis
    using 1 2 coupledAmplitude_bounds(3,4) [of b transferred] by blast
qed

theorem updateWaveField_amplitudes_witness:
  "amplitudeOf (excited 0.5) ''n2'' = Some 0.5 \<and> (0.5::real) \<le> 1 \<and>
   (\<exists>a'. amplitudeOf (snd (updateWaveField 0 (excited 0.5))) ''n2'' = Some a' \<and> 0.5 \<le> a') \<and>
   list_all within01 (map snd (wave_nodes (excited 0.5))) \<and>
   list_all within01 (map snd (wave_nodes (snd (updateWaveField 0 (excited 0.5))))) \<and>
   (0.5::real) \<le> coupledAmplitude 0.5 3 \<and> coupledAmplitude 0.5 3 \<le> 0.5 + 0.01 * \<bar>3::real\<bar>"
proof -
  have h1: "amplitudeOf (excited 0.5) ''n2'' = Some 0.5"
    and h2: "list_all within01 (map snd (wave_nodes (excited 0.5)))"
    by (simp_all add: wave_defs update_conv')
  show ?thesis
    using updateWaveField_amplitudes [of "excited 0.5" "''n2''" "0.5" 0 "0.5" 3] h1 h2 by simp
qed

text \<open>
  C6. The claim: registering an edge fails with UnknownNodeError when an endpoint is not
  registered and with InvalidWeightError when the weight is outside [0, 1], and adds
  nothing then. \<open>registerCausalEdge\<close> checks neither: on a substrate without nodes
  it stores an edge from X to Y of weight 5.
\<close>

theorem registerCausalEdge_unchecked_counterexample:
  "nodes (registerCausalEdge ''e'' (weighted ''X'' ''Y'' 5) newSubstrate) = [] \<and>
   map (\<lambda>(k, e). (k, edge_from e, edge_to e, strength e))
       (edges (registerCausalEdge ''e'' (weighted ''X'' ''Y'' 5) newSubstrate))
     = [(''e'', ''X'', ''Y'', 5)]"
  by (simp add: substrate_defs)

text \<open>
  C6, as amended: \<open>registerCausalEdge\<close> never fails and always stores the edge under
  its id, with the endpoints as given and the weight as given (1 when it is missing or
  0); the nodes are not consulted. \<open>registerResonanceEdge\<close> of the wave graph leaves
  the graph as it is, without an error, when an endpoint is missing, and stores the edge
  with the same rule for the weight otherwise.
\<close>

theorem edge_registration_unvalidated:
  "(\<exists>e. map_of (edges (registerCausalEdge ident config s)) ident = Some e \<and>
        edge_from e = ecfg_from config \<and> edge_to e = ecfg_to config \<and>
        strength e = (case ecfg_strength config of None \<Rightarrow> 1 | Some w \<Rightarrow> if w = 0 then 1 else w)) \<and>
   nodes (registerCausalEdge ident config s) = nodes s \<and>
   (map_of (wave_nodes g) (wecfg_from wconfig) = None \<or> map_of (wave_nodes g) (wecfg_to wconfig) = None
      \<longrightarrow> registerResonanceEdge wident wconfig g = g) \<and>
   (map_of (wave_nodes g) (wecfg_from wconfig) \<noteq> None \<and> map_of (wave_nodes g) (wecfg_to wconfig) \<noteq> None
      \<longrightarrow> (\<exists>e. map_of (wave_edges (registerResonanceEdge wident wconfig g)) wident = Some e \<and>
             we_from e = wecfg_from wconfig \<and> we_to e = wecfg_to wconfig \<and>
             we_strength e = (case wecfg_strength wconfig of None \<Rightarrow> 1 | Some w \<Rightarrow> if w = 0 then 1 else w)))"
  by (auto simp: registerCausalEdge_def registerResonanceEdge_def update_conv' split: option.splits)

theorem edge_registration_unvalidated_witness:
  "(\<exists>e. map_of (edges (registerCausalEdge ''e'' (weighted ''X'' ''Y'' 5) chainGraph)) ''e'' = Some e \<and>
        edge_from e = ''X'' \<and> edge_to e = ''Y'' \<and> strength e = 5) \<and>
   nodes (registerCausalEdge ''e'' (weighted ''X'' ''Y'' 5) chainGraph) = nodes chainGraph \<and>
   map_of (wave_nodes newWaveGraph) ''n1'' = None \<and>
   registerResonanceEdge ''e'' plainCoupling newWaveGraph = newWaveGraph \<and>
   map_of (wave_nodes pairNodes) ''n1'' \<noteq> None \<and> map_of (wave_nodes pairNodes) ''n2'' \<noteq> None \<and>
   (\<exists>e. map_of (wave_edges pairGraph) ''e'' = Some e \<and>
        we_from e = ''n1'' \<and> we_to e = ''n2'' \<and> we_strength e = 1)"
proof -
  have h: "map_of (wave_nodes newWaveGraph) (wecfg_from plainCoupling) = None"
    by (simp add: newWaveGraph_def plainCoupling_def)
  have k: "map_of (wave_nodes pairNodes) (wecfg_from plainCoupling) \<noteq> None"
    "map_of (wave_nodes pairNodes) (wecfg_to plainCoupling) \<noteq> None"
    by (simp_all add: pairNodes_def plainCoupling_def waveRegisterNode_def Let_def update_conv')
  show ?thesis
    using edge_registration_unvalidated [of "''e''" "weighted ''X'' ''Y'' 5" chainGraph newWaveGraph
        plainCoupling "''e''"]
      edge_registration_unvalidated [of "''e''" "weighted ''X'' ''Y'' 5" chainGraph pairNodes
        plainCoupling "''e''"] h k
    by (simp add: weighted_def pairGraph_def plainCoupling_def)
qed

section \<open>Properties of the reproductive graph\<close>

lemma layerOf_undefined: "layerOf None theirs acc = Inl (TypeError ''Cannot convert undefined or null to object'')"
  by (simp add: layerOf_def)

lemma calculateGeneticDistance_default:
  "baseGenes (rg_dna g) = None \<Longrightarrow>
   calculateGeneticDistance g otherGraph = Inl (TypeError ''Cannot convert undefined or null to object'')"
  by (simp add: calculateGeneticDistance_def layerOf_undefined)



text \<open>
  C9. The DNA of \<open>_generateDNA\<close> has no \<open>baseGenes\<close>. For two graphs that carry such
  DNA and the empty \<open>parents\<close> and \<open>ancestors\<close> the constructor gives them:
  when the age and cooldown checks pass, \<open>canMateWith\<close> throws a \<open>TypeError\<close> instead
  of returning a compatibility result; and \<open>mateWith\<close> is rejected in every case,
  whatever the part after its compatibility check would do.
\<close>

theorem default_dna_cannot_mate:
  assumes "rg_dna g = generateDNA r1" and "rg_dna otherGraph = generateDNA r2"
    and "parents g = []" and "ancestors g = []"
    and "parents otherGraph = []" and "ancestors otherGraph = []"
  shows "baseGenes (generateDNA r) = None \<and>
         (\<not> (age g < minMatingAge g \<or> age otherGraph < minMatingAge otherGraph) \<and>
          \<not> (now - lastMating g < cooldownPeriod g) \<longrightarrow>
            (\<exists>m. calculateGeneticDistance g otherGraph = Inl (TypeError m) \<and>
                 canMateWith g otherGraph now = Inl (TypeError m))) \<and>
         (\<exists>e. mateWith breed g otherGraph now = Inl e)"
proof -
  have b: "baseGenes (rg_dna g) = None" using assms(1) by (simp add: generateDNA_def)
  have d: "calculateGeneticDistance g otherGraph = Inl (TypeError ''Cannot convert undefined or null to object'')"
    using b by (rule calculateGeneticDistance_default)
  have r: "\<not> isTooRelated g otherGraph" using assms(3-6) by (simp add: isTooRelated_def)
  have c: "canMateWith g otherGraph now = Inl (TypeError ''Cannot convert undefined or null to object'')"
    if "\<not> (age g < minMatingAge g \<or> age otherGraph < minMatingAge otherGraph)"
      "\<not> (now - lastMating g < cooldownPeriod g)"
    using that r d by (simp add: canMateWith_def)
  have m: "\<exists>e. mateWith breed g otherGraph now = Inl e"
    using r d by (simp add: mateWith_def canMateWith_def)
  have n: "baseGenes (generateDNA r) = None" by (simp add: generateDNA_def)
  show ?thesis using n c d m by blast
qed

theorem default_dna_cannot_mate_witness:
  "rg_dna (grownGraph (\<lambda>k. 1 / 2) 60000) = generateDNA (\<lambda>k. 1 / 2) \<and>
   rg_dna (grownGraph (\<lambda>k. 1 / 4) 70000) = generateDNA (\<lambda>k. 1 / 4) \<and>
   parents (grownGraph (\<lambda>k. 1 / 2) 60000) = [] \<and> ancestors (grownGraph (\<lambda>k. 1 / 2) 60000) = [] \<and>
   parents (grownGraph (\<lambda>k. 1 / 4) 70000) = [] \<and> ancestors (grownGraph (\<lambda>k. 1 / 4) 70000) = [] \<and>
   \<not> (age (grownGraph (\<lambda>k. 1 / 2) 60000) < minMatingAge (grownGraph (\<lambda>k. 1 / 2) 60000) \<or>
      age (grownGraph (\<lambda>k. 1 / 4) 70000) < minMatingAge (grownGraph (\<lambda>k. 1 / 4) 70000)) \<and>
   \<not> (100000 - lastMating (grownGraph (\<lambda>k. 1 / 2) 60000)
        < cooldownPeriod (grownGraph (\<lambda>k. 1 / 2) 60000)) \<and>
   (\<exists>m. canMateWith (grownGraph (\<lambda>k. 1 / 2) 60000) (grownGraph (\<lambda>k. 1 / 4) 70000) 100000
          = Inl (TypeError m)) \<and>
   (\<exists>e. mateWith (\<lambda>a b. Inr [a, b]) (grownGraph (\<lambda>k. 1 / 2) 60000)
          (grownGraph (\<lambda>k. 1 / 4) 70000) 100000 = Inl e)"
proof -
  let ?g = "grownGraph (\<lambda>k. 1 / 2) 60000" and ?h = "grownGraph (\<lambda>k. 1 / 4) 70000"
  have h: "rg_dna ?g = generateDNA (\<lambda>k. 1 / 2)" "rg_dna ?h = generateDNA (\<lambda>k. 1 / 4)"
    "parents ?g = []" "ancestors ?g = []" "parents ?h = []" "ancestors ?h = []"
    by (simp_all add: grownGraph_def newReproGraph_def generateDNA_def Let_def)
  have p: "\<not> (age ?g < minMatingAge ?g \<or> age ?h < minMatingAge ?h)"
    "\<not> (100000 - lastMating ?g < cooldownPeriod ?g)"
    by (simp_all add: grownGraph_def newReproGraph_def Let_def)
  show ?thesis
    using default_dna_cannot_mate [OF h, of "\<lambda>k. 0" 100000 "\<lambda>a b. Inr [a, b]"] h p by blast
qed

end
